theory Spec2Isabelle
  imports Main "HOL-Library.AList"
begin

section \<open>Python values and exceptions shared by the modules\<close>

text \<open>
  The exceptions the modelled code can raise. A raising call returns \<open>Inl e\<close>.
\<close>

datatype py_error =
    AssertionError
  | AttributeError
  | TypeError
  | ValueError
  | KeyError
  | InvalidToken
  | TimeoutError
  | NameError

text \<open>
  A parsed YAML document as \<open>yaml.safe_load\<close> hands it to the code: Python's
  \<open>None\<close>, \<open>bool\<close>, \<open>int\<close>, \<open>str\<close>, \<open>bytes\<close>, \<open>list\<close> and \<open>dict\<close>.
  Mapping keys are strings (the code only ever tests keys against string literals), a
  \<open>dict\<close> is its list of items in insertion order, and text is held as its UTF-8
  bytes. The other values a YAML document can hold (floats, dates, sets), which the
  code handles like any scalar it does not look into, are left out of the value type.
\<close>

datatype yaml =
    YNone
  | YBool bool
  | YInt int
  | YStr string
  | YBytes string
  | YList "yaml list"
  | YDict "(string \<times> yaml) list"

type_synonym py_dict = "(string \<times> yaml) list"

text \<open>\<open>isinstance(v, dict)\<close>, \<open>isinstance(v, str)\<close> and Python truthiness.\<close>

fun is_dict :: "yaml \<Rightarrow> bool" where
  "is_dict (YDict d) = True"
| "is_dict v = False"

fun is_str :: "yaml \<Rightarrow> bool" where
  "is_str (YStr s) = True"
| "is_str v = False"

fun truthy :: "yaml \<Rightarrow> bool" where
  "truthy YNone = False"
| "truthy (YBool b) = b"
| "truthy (YInt i) = (i \<noteq> 0)"
| "truthy (YStr s) = (s \<noteq> [])"
| "truthy (YBytes b) = (b \<noteq> [])"
| "truthy (YList xs) = (xs \<noteq> [])"
| "truthy (YDict d) = (d \<noteq> [])"

text \<open>\<open>d.get(k)\<close>: the value stored under \<open>k\<close>, or \<open>None\<close>.\<close>

definition dict_get :: "py_dict \<Rightarrow> string \<Rightarrow> yaml" where
  "dict_get d k = (case map_of d k of None \<Rightarrow> YNone | Some v \<Rightarrow> v)"

fun is_bytes :: "yaml \<Rightarrow> bool" where
  "is_bytes (YBytes b) = True"
| "is_bytes v = False"

text \<open>
  Reading the payload of a value whose type has been tested; the code only reaches
  these after the matching \<open>isinstance\<close> test.
\<close>

fun the_str :: "yaml \<Rightarrow> string" where
  "the_str (YStr s) = s"
| "the_str v = []"

fun the_bytes :: "yaml \<Rightarrow> string" where
  "the_bytes (YBytes b) = b"
| "the_bytes v = []"

fun the_dict :: "yaml \<Rightarrow> py_dict" where
  "the_dict (YDict d) = d"
| "the_dict v = []"

section \<open>config.py\<close>

text \<open>
  The \<open>Fernet\<close> object of the \<open>cryptography\<close> package is not part of the
  repository: its two operations are parameters. \<open>encrypt\<close> maps bytes to a token,
  \<open>decrypt\<close> maps a token back or raises \<open>InvalidToken\<close> (\<open>None\<close> here).
  Text is held as its UTF-8 bytes, so \<open>str.encode\<close> and \<open>bytes.decode\<close> leave the
  bytes as they are.
\<close>

record fernet =
  fernet_encrypt :: "string \<Rightarrow> string"
  fernet_decrypt :: "string \<Rightarrow> string option"

definition str_encode :: "string \<Rightarrow> string" where
  "str_encode s = s"

definition bytes_decode :: "string \<Rightarrow> string" where
  "bytes_decode b = b"

text \<open>\<open>k in ('secret', 'password')\<close>\<close>

definition sensitive :: "string \<Rightarrow> bool" where
  "sensitive k = (k = ''secret'' \<or> k = ''password'')"

text \<open>
  \<^verbatim>\<open>
  def encrypt(layer, fernet):
      for k, v in layer.items():
          if k in ('secret', 'password') and isinstance(v, str):
              layer[k] = {"encrypted": fernet.encrypt(str.encode(v))}
          elif isinstance(v, (list, tuple)):
              for item in v:
                  if isinstance(item, dict):
                      encrypt(item, fernet)
          elif isinstance(v, dict):
              encrypt(v, fernet)
  \<close>
  The function mutates \<open>layer\<close> in place; the model returns the layer after the
  call. \<open>encrypt\<close> walks the items of a mapping, \<open>encrypt_items\<close> is the inner
  \<open>for item in v\<close> loop. The Python function has no \<open>return\<close> statement: a call
  evaluates to \<open>None\<close>, which is \<open>encrypt_returns\<close>.
\<close>

function encrypt :: "fernet \<Rightarrow> py_dict \<Rightarrow> py_dict"
  and encrypt_items :: "fernet \<Rightarrow> yaml list \<Rightarrow> yaml list" where
  "encrypt fernet [] = []"
| "encrypt fernet ((k, v) # layer) =
     (k, (if sensitive k \<and> is_str v
          then YDict [(''encrypted'', YBytes (fernet_encrypt fernet (str_encode (the_str v))))]
          else (case v of
                  YList xs \<Rightarrow> YList (encrypt_items fernet xs)
                | YDict d \<Rightarrow> YDict (encrypt fernet d)
                | _ \<Rightarrow> v))) # encrypt fernet layer"
| "encrypt_items fernet [] = []"
| "encrypt_items fernet (item # v) =
     (case item of YDict d \<Rightarrow> YDict (encrypt fernet d) | _ \<Rightarrow> item) # encrypt_items fernet v"
  by pat_completeness auto
termination
  by (relation "measure (\<lambda>x. case x of Inl (f, d) \<Rightarrow> size (YDict d)
                                      | Inr (f, xs) \<Rightarrow> size (YList xs))") auto

definition encrypt_returns :: yaml where
  "encrypt_returns = YNone"

text \<open>
  \<^verbatim>\<open>
  def decrypt(layer, fernet):
      for k, v in layer.items():
          if k in ('secret', 'password') and isinstance(v, dict):
              ecrypted = v.get("encrypted")
              if ecrypted and isinstance(ecrypted, bytes):
                  layer[k] = fernet.decrypt(ecrypted).decode()
          elif isinstance(v, (list, tuple)):
              for item in v:
                  if isinstance(item, dict):
                      decrypt(item, fernet)
          elif isinstance(v, dict):
              decrypt(v, fernet)
  \<close>
  \<open>fernet.decrypt\<close> can raise, so the result is a sum; the first exception in
  iteration order ends the walk.
\<close>

function decrypt :: "fernet \<Rightarrow> py_dict \<Rightarrow> py_error + py_dict"
  and decrypt_items :: "fernet \<Rightarrow> yaml list \<Rightarrow> py_error + yaml list" where
  "decrypt fernet [] = Inr []"
| "decrypt fernet ((k, v) # layer) =
     (case (if sensitive k \<and> is_dict v
            then (let ecrypted = dict_get (the_dict v) ''encrypted''
                  in if truthy ecrypted \<and> is_bytes ecrypted
                     then (case fernet_decrypt fernet (the_bytes ecrypted) of
                             None \<Rightarrow> Inl InvalidToken
                           | Some plain \<Rightarrow> Inr (YStr (bytes_decode plain)))
                     else Inr v)
            else (case v of
                    YList xs \<Rightarrow> map_sum id YList (decrypt_items fernet xs)
                  | YDict d \<Rightarrow> map_sum id YDict (decrypt fernet d)
                  | _ \<Rightarrow> Inr v)) of
        Inl e \<Rightarrow> Inl e
      | Inr v' \<Rightarrow>
          (case decrypt fernet layer of
             Inl e \<Rightarrow> Inl e
           | Inr layer' \<Rightarrow> Inr ((k, v') # layer')))"
| "decrypt_items fernet [] = Inr []"
| "decrypt_items fernet (item # v) =
     (case (case item of YDict d \<Rightarrow> map_sum id YDict (decrypt fernet d) | _ \<Rightarrow> Inr item) of
        Inl e \<Rightarrow> Inl e
      | Inr item' \<Rightarrow>
          (case decrypt_items fernet v of
             Inl e \<Rightarrow> Inl e
           | Inr v' \<Rightarrow> Inr (item' # v')))"
  by pat_completeness auto
termination
  by (relation "measure (\<lambda>x. case x of Inl (f, d) \<Rightarrow> size (YDict d)
                                      | Inr (f, xs) \<Rightarrow> size (YList xs))") auto

text \<open>
  \<^verbatim>\<open>
  def get_config(conf: dict, probe_name: str, asset_id):
      probe = conf.get(probe_name)
      if not isinstance(probe, dict):
          return {}
      assets = probe.get('assets')
      if assets:
          for asset in assets:
              if not isinstance(asset, dict):
                  continue
              # id can be either a single id or a list of ids
              _asset_id = asset.get('id')
              if _asset_id == asset_id or \
                      (isinstance(_asset_id, list) and asset_id in _asset_id):
                  config = asset.get('config')
                  return config if isinstance(config, dict) else {}
      config = probe.get('config')
      return config if isinstance(config, dict) else {}
  \<close>
  \<open>asset_id\<close> is the integer of an assignment path. \<open>py_eq_int\<close> is Python's
  \<open>==\<close> between a document value and an integer (\<open>True == 1\<close> holds in Python).
  \<open>py_iter\<close> is what \<open>for asset in assets\<close> visits: the elements of a list, the
  keys of a mapping, the characters of a string, the bytes of a byte string; any other
  value raises \<open>TypeError\<close>.
\<close>

fun py_eq_int :: "yaml \<Rightarrow> int \<Rightarrow> bool" where
  "py_eq_int (YInt i) n = (i = n)"
| "py_eq_int (YBool b) n = ((if b then 1 else 0) = n)"
| "py_eq_int v n = False"

definition id_matches :: "yaml \<Rightarrow> int \<Rightarrow> bool" where
  "id_matches asset_id' asset_id =
     (py_eq_int asset_id' asset_id \<or>
      (case asset_id' of
         YList ids \<Rightarrow> list_ex (\<lambda>x. py_eq_int x asset_id) ids
       | _ \<Rightarrow> False))"

definition dict_or_empty :: "yaml \<Rightarrow> yaml" where
  "dict_or_empty config = (if is_dict config then config else YDict [])"

fun py_iter :: "yaml \<Rightarrow> py_error + yaml list" where
  "py_iter (YList xs) = Inr xs"
| "py_iter (YDict d) = Inr (map (\<lambda>(k, v). YStr k) d)"
| "py_iter (YStr s) = Inr (map (\<lambda>c. YStr [c]) s)"
| "py_iter (YBytes b) = Inr (map (\<lambda>c. YInt (of_char c)) b)"
| "py_iter v = Inl TypeError"

text \<open>The \<open>for asset in assets\<close> loop: \<open>Some\<close> is its \<open>return\<close>.\<close>

fun assets_loop :: "yaml list \<Rightarrow> int \<Rightarrow> yaml option" where
  "assets_loop [] asset_id = None"
| "assets_loop (asset # assets) asset_id =
     (if \<not> is_dict asset then assets_loop assets asset_id
      else if id_matches (dict_get (the_dict asset) ''id'') asset_id
           then Some (dict_or_empty (dict_get (the_dict asset) ''config''))
           else assets_loop assets asset_id)"

definition get_config :: "py_dict \<Rightarrow> string \<Rightarrow> int \<Rightarrow> py_error + yaml" where
  "get_config conf probe_name asset_id =
     (let probe = dict_get conf probe_name in
      if \<not> is_dict probe then Inr (YDict [])
      else
        let assets = dict_get (the_dict probe) ''assets'' in
        case (if truthy assets
              then (case py_iter assets of
                      Inl e \<Rightarrow> Inl e
                    | Inr items \<Rightarrow> Inr (assets_loop items asset_id))
              else Inr None) of
          Inl e \<Rightarrow> Inl e
        | Inr (Some config) \<Rightarrow> Inr config
        | Inr None \<Rightarrow> Inr (dict_or_empty (dict_get (the_dict probe) ''config'')))"

text \<open>
  For the statements about \<open>get_config\<close>: the entries the loop visits (none when
  \<open>assets\<close> is falsy), and the test the loop applies to an entry.
\<close>

definition assets_entries :: "yaml \<Rightarrow> py_error + yaml list" where
  "assets_entries assets = (if truthy assets then py_iter assets else Inr [])"


text \<open>
  For the statements about \<open>encrypt\<close> and \<open>decrypt\<close>: what the code relies on from
  the cipher (a token decrypts to what was encrypted, and is never empty), and the
  documents in which no \<open>password\<close> or \<open>secret\<close> key holds a mapping.
\<close>

definition fernet_ok :: "fernet \<Rightarrow> bool" where
  "fernet_ok fernet =
     (\<forall>b. fernet_decrypt fernet (fernet_encrypt fernet b) = Some b \<and>
          fernet_encrypt fernet b \<noteq> [])"

function flat_secrets :: "py_dict \<Rightarrow> bool"
  and flat_secrets_items :: "yaml list \<Rightarrow> bool" where
  "flat_secrets [] = True"
| "flat_secrets ((k, v) # layer) =
     ((case v of
         YDict d \<Rightarrow> \<not> sensitive k \<and> flat_secrets d
       | YList xs \<Rightarrow> flat_secrets_items xs
       | _ \<Rightarrow> True) \<and> flat_secrets layer)"
| "flat_secrets_items [] = True"
| "flat_secrets_items (item # v) =
     ((case item of YDict d \<Rightarrow> flat_secrets d | _ \<Rightarrow> True) \<and> flat_secrets_items v)"
  by pat_completeness auto
termination
  by (relation "measure (\<lambda>x. case x of Inl d \<Rightarrow> size (YDict d)
                                      | Inr xs \<Rightarrow> size (YList xs))") auto

section \<open>net/protocol.py\<close>

text \<open>
  Modelled from the spec: \<open>Package\<close> (net/package.py is not among the source
  files). The spec gives a package the fields \<open>pid\<close>, \<open>type\<close>, \<open>partid\<close> and
  \<open>data\<close>; \<open>pid\<close> is assignable. Its serialiser \<open>to_bytes\<close> is a parameter of
  the functions that call it.
\<close>

record pkg =
  pkg_pid :: int
  pkg_tp :: nat
  pkg_partid :: int
  pkg_data :: yaml

text \<open>
  The objects \<open>Protocol\<close> creates and hands out live in the state too: an
  \<open>asyncio.Future\<close> is an index into \<open>futures\<close>, the task running \<open>_timer\<close> an
  index into \<open>timers\<close>. A transport is the list of the byte strings written to it.
  A timeout is a number of seconds.
\<close>

datatype future = Pending | Result yaml | Exception py_error

datatype timer_state = Sleeping | Cancelled | Finished

record timer =
  timer_pid :: int
  timer_timeout :: int
  timer_state :: timer_state

record protocol =
  buffered_data :: string
  package :: "pkg option"
  requests :: "(int \<times> nat \<times> nat option) list"
  pid :: int
  transport :: "string list option"
  futures :: "future list"
  timers :: "timer list"

text \<open>\<open>Protocol.__init__\<close>\<close>

definition protocol_init :: protocol where
  "protocol_init =
     \<lparr>buffered_data = [], package = None, requests = [], pid = 0, transport = None,
      futures = [], timers = []\<rparr>"

text \<open>
  \<^verbatim>\<open>
  def connection_made(self, transport):
      self.transport = transport

  def connection_lost(self, exc):
      self.transport = None
      self._package = None
      self._buffered_data.clear()

  def is_connected(self) -> bool:
      return self.transport is not None
  \<close>
\<close>

definition connection_made :: "string list \<Rightarrow> protocol \<Rightarrow> protocol" where
  "connection_made t self = self\<lparr>transport := Some t\<rparr>"

definition connection_lost :: "protocol \<Rightarrow> protocol" where
  "connection_lost self = self\<lparr>transport := None, package := None, buffered_data := []\<rparr>"

definition is_connected :: "protocol \<Rightarrow> bool" where
  "is_connected self = (transport self \<noteq> None)"

text \<open>
  \<^verbatim>\<open>
  def request(self, pkg, timeout=None) -> asyncio.Future:
      self._pid += 1
      self._pid %= 0x10000
      pkg.pid = self._pid
      task = asyncio.ensure_future(
          self._timer(pkg.pid, timeout)) if timeout else None
      future = asyncio.Future()
      self._requests[pkg.pid] = (future, task)
      assert self.transport is not None
      self.transport.write(pkg.to_bytes())
      return future
  \<close>
  The result is what the call returns or raises, the package with its \<open>pid\<close>
  assigned, and the state. The assertion comes after the assignments, so they stay
  when it fails. (Run with assertions disabled, the next line raises
  \<open>AttributeError\<close> on \<open>None\<close> instead.)
\<close>

definition timeout_truthy :: "int option \<Rightarrow> bool" where
  "timeout_truthy timeout = (case timeout of None \<Rightarrow> False | Some t \<Rightarrow> t \<noteq> 0)"

definition request ::
  "(pkg \<Rightarrow> string) \<Rightarrow> pkg \<Rightarrow> int option \<Rightarrow> protocol
     \<Rightarrow> (py_error + nat) \<times> pkg \<times> protocol" where
  "request to_bytes pkg timeout self =
     (let pid' = (pid self + 1) mod 0x10000;
          pkg' = pkg\<lparr>pkg_pid := pid'\<rparr>;
          task = (if timeout_truthy timeout then Some (length (timers self)) else None);
          timers' = (if timeout_truthy timeout
                     then timers self @
                            [\<lparr>timer_pid = pkg_pid pkg', timer_timeout = the timeout,
                              timer_state = Sleeping\<rparr>]
                     else timers self);
          future = length (futures self);
          self' = self\<lparr>pid := pid', timers := timers',
                        futures := futures self @ [Pending],
                        requests := AList.update (pkg_pid pkg') (future, task) (requests self)\<rparr>
      in case transport self' of
           None \<Rightarrow> (Inl AssertionError, pkg', self')
         | Some written \<Rightarrow>
             (Inr future, pkg', self'\<lparr>transport := Some (written @ [to_bytes pkg'])\<rparr>))"

text \<open>
  \<^verbatim>\<open>
  async def _timer(self, pid, timeout):
      await asyncio.sleep(timeout)
      try:
          future, task = self._requests.pop(pid)
      except KeyError:
          logging.error(f'timed out package id not found: {pid}')
          return None
      future.set_exception(TimeoutError(
          f'request timed out on package id: {pid}'))
  \<close>
  \<open>timer_wakes t\<close> is the part after the sleep of timer task \<open>t\<close>; a cancelled task
  never gets there.
\<close>

definition timer_wakes :: "nat \<Rightarrow> protocol \<Rightarrow> protocol" where
  "timer_wakes t self =
     (if t < length (timers self) \<and> timer_state (timers self ! t) = Sleeping
      then
        (let pid = timer_pid (timers self ! t);
             self' = self\<lparr>timers :=
                       (timers self)[t := (timers self ! t)\<lparr>timer_state := Finished\<rparr>]\<rparr>
         in case map_of (requests self') pid of
              None \<Rightarrow> self'
            | Some (future, task) \<Rightarrow>
                self'\<lparr>requests := AList.delete pid (requests self'),
                      futures := (futures self')[future := Exception TimeoutError]\<rparr>)
      else self)"

text \<open>
  \<^verbatim>\<open>
  def _get_future(self, pkg):
      future, task = self._requests.pop(pkg.pid, (None, None))
      if future is None:
          logging.error(...)
          return None
      if task is not None:
          task.cancel()
      return future
  \<close>
\<close>

definition cancel_timer :: "nat \<Rightarrow> timer list \<Rightarrow> timer list" where
  "cancel_timer t ts =
     (if t < length ts \<and> timer_state (ts ! t) = Sleeping
      then ts[t := (ts ! t)\<lparr>timer_state := Cancelled\<rparr>] else ts)"

definition get_future :: "pkg \<Rightarrow> protocol \<Rightarrow> nat option \<times> protocol" where
  "get_future pkg self =
     (case map_of (requests self) (pkg_pid pkg) of
        None \<Rightarrow> (None, self)
      | Some (future, task) \<Rightarrow>
          (Some future,
           self\<lparr>requests := AList.delete (pkg_pid pkg) (requests self),
                timers := (case task of
                             None \<Rightarrow> timers self
                           | Some t \<Rightarrow> cancel_timer t (timers self))\<rparr>))"

text \<open>
  The states a protocol object passes through. \<open>data_received\<close> changes the receive
  buffer and the partial package (how it parses is the package codec's, which is not
  among the source files) and hands complete packages to the subclass, which looks up
  responses with \<open>_get_future\<close>.
\<close>

inductive reachable :: "(pkg \<Rightarrow> string) \<Rightarrow> protocol \<Rightarrow> bool" for to_bytes where
  start: "reachable to_bytes protocol_init"
| made: "reachable to_bytes s \<Longrightarrow> reachable to_bytes (connection_made t s)"
| lost: "reachable to_bytes s \<Longrightarrow> reachable to_bytes (connection_lost s)"
| requested:
    "reachable to_bytes s \<Longrightarrow> reachable to_bytes (snd (snd (request to_bytes p timeout s)))"
| timed_out: "reachable to_bytes s \<Longrightarrow> reachable to_bytes (timer_wakes t s)"
| answered: "reachable to_bytes s \<Longrightarrow> reachable to_bytes (snd (get_future p s))"
| received:
    "reachable to_bytes s \<Longrightarrow> reachable to_bytes (s\<lparr>buffered_data := b, package := q\<rparr>)"

text \<open>
  For the statements about \<open>request\<close>: \<open>n\<close> requests in a row, none with a
  timeout and none answered.
\<close>

fun issue :: "(pkg \<Rightarrow> string) \<Rightarrow> pkg \<Rightarrow> nat \<Rightarrow> protocol \<Rightarrow> protocol" where
  "issue to_bytes p 0 s = s"
| "issue to_bytes p (Suc n) s = snd (snd (request to_bytes p None (issue to_bytes p n s)))"

section \<open>probe.py: the module-level \<open>MAX_PACKAGE_SIZE\<close>\<close>

text \<open>
  \<^verbatim>\<open>
  MAX_PACKAGE_SIZE = int(os.getenv('MAX_PACKAGE_SIZE', 500))
  if 1 > MAX_PACKAGE_SIZE > 2000:
      sys.exit('Value for MAX_PACKAGE_SIZE must be between 1 and 2000')
  MAX_PACKAGE_SIZE *= 1000
  \<close>
  The environment variable is unset, holds text that \<open>int()\<close> accepts, or holds text
  on which \<open>int()\<close> raises \<open>ValueError\<close>. probe.py does not import \<open>sys\<close>, so
  the body of the \<open>if\<close> would raise \<open>NameError\<close> where it means to exit; either
  way the interpreter stops with a non-zero status.
\<close>

datatype env_value = Unset | IntText int | BadText

definition getenv_int :: "env_value \<Rightarrow> int \<Rightarrow> py_error + int" where
  "getenv_int e dflt =
     (case e of Unset \<Rightarrow> Inr dflt | IntText n \<Rightarrow> Inr n | BadText \<Rightarrow> Inl ValueError)"

text \<open>
  Python's chained comparison \<open>1 > x > 2000\<close> is \<open>1 > x and x > 2000\<close>.
\<close>

definition out_of_bounds :: "int \<Rightarrow> bool" where
  "out_of_bounds x = (1 > x \<and> x > 2000)"

definition MAX_PACKAGE_SIZE :: "env_value \<Rightarrow> py_error + int" where
  "MAX_PACKAGE_SIZE e =
     (case getenv_int e 500 of
        Inl err \<Rightarrow> Inl err
      | Inr x \<Rightarrow>
          if out_of_bounds x
          then Inl NameError
          else Inr (x * 1000))"

section \<open>probe.py: the \<open>Probe\<close> class\<close>

text \<open>
  An assignment path is the pair \<open>(asset_id, check_id)\<close>, the names of an assignment
  the pair \<open>(asset_name, check_key)\<close>. The check configuration is a dictionary the
  code compares with \<open>!=\<close> and otherwise passes on: it is a type parameter, with
  equality for Python's \<open>==\<close>.

  \<open>_checks\<close> maps a path to the \<open>asyncio\<close> task that runs its check loop. A task
  is an index into \<open>tasks\<close>, which holds what the event loop knows of it: still
  pending, pending with a cancellation requested, done (its coroutine returned or
  raised), or cancelled (\<open>Task.cancelled()\<close> is true only then).
\<close>

type_synonym path = "int \<times> int"

type_synonym names = "string \<times> string"

datatype task_state = TaskPending | TaskCancelling | TaskDone | TaskCancelled

text \<open>
  The fields of \<open>Probe\<close> the modelled methods use. \<open>checks_funs\<close> is the set of
  keys of the registered check functions; \<open>protocol\<close> is the protocol object of the
  current connection, if any.
\<close>

record 'c probe =
  name :: string
  checks_funs :: "string set"
  protocol :: "protocol option"
  local_config :: "py_dict option"
  local_config_mtime :: "int option"
  checks_config :: "(path \<times> names \<times> 'c) list"
  checks :: "(path \<times> nat) list"
  tasks :: "task_state list"

subsection \<open>\<open>Probe._read_local_config\<close>\<close>

definition HEADER_FILE :: string where
  "HEADER_FILE = concat (map (\<lambda>line. line @ [CHR 0x0A])
     [''# WARNING: InfraSonar will make `password` and `secret` values unreadable but'',
      ''# this must not be regarded as true encryption as the encryption key is'',
      ''# publicly available.'',
      ''#'',
      ''# Example configuration for `myprobe` collector:'',
      ''#'',
      ''#  myprobe:'',
      ''#    config:'',
      ''#      username: alice'',
      ''#      password: '' @ [CHR 0x22] @ ''secret password'' @ [CHR 0x22],
      ''#    assets:'',
      ''#    - id: 12345'',
      ''#      config:'',
      ''#        username: bob'',
      ''#        password: '' @ [CHR 0x22] @ ''my secret'' @ [CHR 0x22]])"

text \<open>
  The configuration file is its modification time and its text. The YAML library is
  not part of the repository: \<open>yaml.safe_load\<close> and \<open>yaml.dump\<close> are parameters,
  as is the modification time \<open>now\<close> a file written during the call would get.
\<close>

record config_file =
  st_mtime :: int
  file_text :: string

record yaml_lib =
  safe_load :: "string \<Rightarrow> py_error + yaml"
  dump :: "yaml \<Rightarrow> string"

text \<open>
  \<^verbatim>\<open>
  for probe in config.values():
      if 'use' in probe:
          for section in ('assets', 'config'):
              if section in probe:
                  logging.warning(...)
  \<close>
  The loop only logs, but \<open>'use' in probe\<close> raises \<open>TypeError\<close> when \<open>probe\<close> is
  not a string, a list or a mapping.
\<close>

fun use_warnings :: "yaml list \<Rightarrow> py_error + unit" where
  "use_warnings [] = Inr ()"
| "use_warnings (probe # probes) =
     (case probe of
        YStr s \<Rightarrow> use_warnings probes
      | YList xs \<Rightarrow> use_warnings probes
      | YDict d \<Rightarrow> use_warnings probes
      | _ \<Rightarrow> Inl TypeError)"

text \<open>
  \<^verbatim>\<open>
  def _read_local_config(self):
      if self._config_path.stat().st_mtime == self._local_config_mtime:
          return
      with open(self._config_path, 'r') as file:
          config = yaml.safe_load(file)
      if config:
          # First encrypt everything
          changed = encrypt(config, FERNET)
          # Re-write the file
          if changed:
              with open(self._config_path, 'w') as file:
                  file.write(HEADER_FILE)
                  file.write(yaml.dump(config))
          # Now decrypt everything so we can use the configuration
          decrypt(config, FERNET)
      else:
          config = {}
      for probe in config.values():
          ...
      self._local_config_mtime = self._config_path.stat().st_mtime
      self._local_config = config
  \<close>
  The result is what the call returns or raises, and the file after the call.
  \<open>encrypt\<close> calls \<open>layer.items()\<close>, which raises \<open>AttributeError\<close> on a
  document that is not a mapping.
\<close>

definition read_local_config ::
  "fernet \<Rightarrow> yaml_lib \<Rightarrow> int \<Rightarrow> config_file \<Rightarrow> 'c probe
     \<Rightarrow> (py_error + 'c probe) \<times> config_file" where
  "read_local_config FERNET yaml now file self =
     (if Some (st_mtime file) = local_config_mtime self then (Inr self, file)
      else
        case safe_load yaml (file_text file) of
          Inl e \<Rightarrow> (Inl e, file)
        | Inr config \<Rightarrow>
            let (loaded, file') =
                  (if truthy config
                   then (if \<not> is_dict config then (Inl AttributeError, file)
                         else
                           let config' = encrypt FERNET (the_dict config);
                               changed = encrypt_returns;
                               file' = (if truthy changed
                                        then \<lparr>st_mtime = now,
                                              file_text =
                                                HEADER_FILE @ dump yaml (YDict config')\<rparr>
                                        else file)
                           in (decrypt FERNET config', file'))
                   else (Inr [], file))
            in case loaded of
                 Inl e \<Rightarrow> (Inl e, file')
               | Inr config \<Rightarrow>
                   (case use_warnings (map snd config) of
                      Inl e \<Rightarrow> (Inl e, file')
                    | Inr u \<Rightarrow>
                        (Inr (self\<lparr>local_config_mtime := Some (st_mtime file'),
                                   local_config := Some config\<rparr>), file')))"

subsection \<open>\<open>Probe.send\<close>\<close>

text \<open>
  Modelled from the spec: \<open>CheckException\<close> and its \<open>to_dict\<close> (exceptions.py is
  not among the source files). The spec gives a check error a message and a severity;
  \<open>ErrorDict message severity\<close> is the dictionary \<open>e.to_dict()\<close> of such an
  exception, with \<open>None\<close> for the severity the class defaults to.
\<close>

datatype error_dict = ErrorDict (message: string) (severity: "string option")

text \<open>
  The dictionary \<open>check_data\<close> of \<open>send\<close>, with its \<open>framework\<close> entries
  \<open>duration\<close> and \<open>timestamp\<close>. Times are whole seconds.
\<close>

record check_data =
  cd_result :: "yaml option"
  cd_error :: "error_dict option"
  cd_duration :: int
  cd_timestamp :: int

text \<open>Python's \<open>str\<close> of a natural number, for \<open>f'... ({len(data)} bytes)'\<close>.\<close>

fun str_nat :: "nat \<Rightarrow> string" where
  "str_nat n =
     (if n < 10 then [''0123456789'' ! n]
      else str_nat (n div 10) @ [''0123456789'' ! (n mod 10)])"

text \<open>
  \<^verbatim>\<open>
  def send(self, path, result, error, ts):
      asset_id, _ = path
      check_data = {
          'result': result,
          'error': error,
          'framework': {
              'duration': time.time() - ts,
              'timestamp': int(ts),
          }
      }
      pkg = Package.make(
          AgentcoreProtocol.PROTO_FAF_DUMP,
          partid=asset_id,
          data=[path, check_data]
      )
      data = pkg.to_bytes()
      if len(data) > MAX_PACKAGE_SIZE:
          e = CheckException(f'data package too large ({len(data)} bytes)')
          logging.error(f'check error; asset_id `{asset_id}`; {str(e)}')
          self.send(path, None, e.to_dict(), ts)
      elif self._protocol and self._protocol.transport:
          self._protocol.transport.write(data)
  \<close>
  \<open>max_size\<close> is the module's \<open>MAX_PACKAGE_SIZE\<close> (in bytes), \<open>to_bytes\<close> the
  bytes of the DUMP package made from \<open>[path, check_data]\<close> (the package codec is not
  among the source files), \<open>now\<close> the reading of \<open>time.time()\<close>. The method calls
  itself, so it is a partial function: \<open>None\<close> is a call that does not return (in
  CPython the recursion ends in \<open>RecursionError\<close>).
\<close>

partial_function (option) send ::
  "int \<Rightarrow> (path \<times> check_data \<Rightarrow> string) \<Rightarrow> int \<Rightarrow> 'c probe \<Rightarrow> path \<Rightarrow> yaml option
     \<Rightarrow> error_dict option \<Rightarrow> int \<Rightarrow> 'c probe option" where
  "send max_size to_bytes now self path result error ts =
     (let check_data = \<lparr>cd_result = result, cd_error = error, cd_duration = now - ts,
                         cd_timestamp = ts\<rparr>;
          data = to_bytes (path, check_data)
      in if int (length data) > max_size
         then send max_size to_bytes now self path None
                (Some (ErrorDict
                   (''data package too large ('' @ str_nat (length data) @ '' bytes)'')
                   None)) ts
         else (case protocol self of
                 None \<Rightarrow> Some self
               | Some proto \<Rightarrow>
                   (case transport proto of
                      None \<Rightarrow> Some self
                    | Some written \<Rightarrow>
                        Some (self\<lparr>protocol :=
                                Some (proto\<lparr>transport := Some (written @ [data])\<rparr>)\<rparr>))))"

declare send.simps [code]

text \<open>The frames the probe has written to its transport (none without a transport).\<close>

definition written_frames :: "'c probe \<Rightarrow> string list" where
  "written_frames self =
     (case protocol self of
        None \<Rightarrow> []
      | Some proto \<Rightarrow> (case transport proto of None \<Rightarrow> [] | Some written \<Rightarrow> written))"

subsection \<open>The assignment reconciler\<close>

text \<open>
  A Python \<open>dict\<close> is its list of items, keys distinct, in insertion order:
  \<open>d[k] = v\<close> is \<open>AList.update k v d\<close>, \<open>d.pop(k)\<close> and \<open>del d[k]\<close> are
  \<open>AList.delete k d\<close>, \<open>d[k]\<close> is \<open>map_of d k\<close>. \<open>dict_update d other\<close> is
  \<open>d.update(other)\<close>; started from the empty dictionary it is also the dictionary
  comprehension over a list of items, where a later item with the same key wins.
\<close>

definition dict_update :: "('k \<times> 'v) list \<Rightarrow> ('k \<times> 'v) list \<Rightarrow> ('k \<times> 'v) list" where
  "dict_update d other = foldl (\<lambda>d (k, v). AList.update k v d) d other"

text \<open>
  \<^verbatim>\<open>
  def _on_upsert_asset(self, asset: list):
      asset_id, checks = asset
      new_checks_config = {
          path: config
          for path, config in self._checks_config.items()
          if path[ASSET_ID] != asset_id}
      new = {
          tuple(path): (names, config)
          for path, names, config in checks
          if names[CHECK_NAME_IDX] in self._checks_funs}
      new_checks_config.update(new)
      self._set_new_checks_config(new_checks_config)
  \<close>
  \<open>upsert_checks_config\<close> is the dictionary handed to \<open>_set_new_checks_config\<close>.
\<close>

definition upsert_checks_config ::
  "string set \<Rightarrow> (path \<times> names \<times> 'c) list \<Rightarrow> int \<times> (path \<times> names \<times> 'c) list
     \<Rightarrow> (path \<times> names \<times> 'c) list" where
  "upsert_checks_config funs old asset =
     (let (asset_id, checks) = asset;
          new_checks_config = filter (\<lambda>(path, config). fst path \<noteq> asset_id) old;
          new = dict_update [] (filter (\<lambda>(path, names, config). snd names \<in> funs) checks)
      in dict_update new_checks_config new)"

text \<open>
  \<^verbatim>\<open>
  def _set_new_checks_config(self, new_checks_config: dict):
      desired_checks = set(new_checks_config)
      for path in set(self._checks):
          if path not in desired_checks:
              # the check is no longer required, pop and cancel the task
              self._checks.pop(path).cancel()
          elif new_checks_config[path] != self._checks_config[path] and \
                  self._checks[path].cancelled():
              # this task is desired but has previously been cancelled;
              # now the config has been changed so we want to re-scheduled.
              del self._checks[path]
      # overwite check_config
      self._checks_config = new_checks_config
      # start new checks
      for path in desired_checks - set(self._checks):
          self._checks[path] = asyncio.ensure_future(
              self._run_check_loop(path)
          )
  \<close>
  \<open>drop_checks\<close> is the first loop, over the items \<open>_checks\<close> had when it began
  (each step touches only the entry of its own path, so the order in which Python
  visits the set does not matter); \<open>start_checks\<close> is the second, where the order
  only decides which index a new task gets. \<open>Task.cancel()\<close>
  asks a pending task to stop and does nothing to one that has ended.
  \<open>self._checks_config[path]\<close> raises \<open>KeyError\<close> on a path with a task and no
  configuration.
\<close>

definition task_cancel :: "nat \<Rightarrow> task_state list \<Rightarrow> task_state list" where
  "task_cancel t ts =
     (if t < length ts \<and> ts ! t = TaskPending then ts[t := TaskCancelling] else ts)"

definition task_cancelled :: "task_state list \<Rightarrow> nat \<Rightarrow> bool" where
  "task_cancelled ts t = (t < length ts \<and> ts ! t = TaskCancelled)"

fun drop_checks ::
  "(path \<times> names \<times> 'c) list \<Rightarrow> (path \<times> names \<times> 'c) list \<Rightarrow> (path \<times> nat) list
     \<Rightarrow> (path \<times> nat) list \<times> task_state list
     \<Rightarrow> py_error + (path \<times> nat) list \<times> task_state list" where
  "drop_checks new old [] (chk, tsk) = Inr (chk, tsk)"
| "drop_checks new old ((path, task) # rest) (chk, tsk) =
     (case map_of new path of
        None \<Rightarrow> drop_checks new old rest (AList.delete path chk, task_cancel task tsk)
      | Some new_config \<Rightarrow>
          (case map_of old path of
             None \<Rightarrow> Inl KeyError
           | Some old_config \<Rightarrow>
               if new_config \<noteq> old_config \<and> task_cancelled tsk task
               then drop_checks new old rest (AList.delete path chk, tsk)
               else drop_checks new old rest (chk, tsk)))"

fun start_checks ::
  "path list \<Rightarrow> (path \<times> nat) list \<times> task_state list
     \<Rightarrow> (path \<times> nat) list \<times> task_state list" where
  "start_checks [] (chk, tsk) = (chk, tsk)"
| "start_checks (path # rest) (chk, tsk) =
     start_checks rest (AList.update path (length tsk) chk, tsk @ [TaskPending])"

definition set_new_checks_config ::
  "(path \<times> names \<times> 'c) list \<Rightarrow> 'c probe \<Rightarrow> py_error + 'c probe" where
  "set_new_checks_config new_checks_config self =
     (case drop_checks new_checks_config (checks_config self) (checks self)
             (checks self, tasks self) of
        Inl e \<Rightarrow> Inl e
      | Inr (chk, tsk) \<Rightarrow>
          let (chk', tsk') =
                start_checks
                  (filter (\<lambda>path. map_of chk path = None) (map fst new_checks_config))
                  (chk, tsk)
          in Inr (self\<lparr>checks_config := new_checks_config, checks := chk', tasks := tsk'\<rparr>))"

definition on_upsert_asset ::
  "int \<times> (path \<times> names \<times> 'c) list \<Rightarrow> 'c probe \<Rightarrow> py_error + 'c probe" where
  "on_upsert_asset asset self =
     set_new_checks_config
       (upsert_checks_config (checks_funs self) (checks_config self) asset) self"

text \<open>
  \<^verbatim>\<open>
  def _on_set_assets(self, assets: list):
      new_checks_config = {
          tuple(path): (names, config)
          for path, names, config in assets
          if names[CHECK_NAME_IDX] in self._checks_funs}
      self._set_new_checks_config(new_checks_config)

  def _on_unset_assets(self, asset_ids: list):
      asset_ids = set(asset_ids)
      new_checks_config = {
          path: config
          for path, config in self._checks_config.items()
          if path[ASSET_ID] not in asset_ids}
      self._set_new_checks_config(new_checks_config)
  \<close>
\<close>

definition on_set_assets ::
  "(path \<times> names \<times> 'c) list \<Rightarrow> 'c probe \<Rightarrow> py_error + 'c probe" where
  "on_set_assets assets self =
     set_new_checks_config
       (dict_update []
          (filter (\<lambda>(path, names, config). snd names \<in> checks_funs self) assets)) self"

definition on_unset_assets :: "int list \<Rightarrow> 'c probe \<Rightarrow> py_error + 'c probe" where
  "on_unset_assets asset_ids self =
     set_new_checks_config
       (filter (\<lambda>(path, config). fst path \<notin> set asset_ids) (checks_config self)) self"

subsection \<open>\<open>Probe._run_check_loop\<close>: one pass of the loop body\<close>

text \<open>
  What awaiting the user's check function under \<open>asyncio.wait_for\<close> can do: return
  a value, or raise. \<open>RaisesException msg\<close> is any other exception, with
  \<open>msg = str(e) or type(e).__name__\<close>. Modelled from the spec:
  \<open>IncompleteResultException\<close> carries a partial result and is a \<open>CheckException\<close>
  (exceptions.py is not among the source files).
\<close>

datatype check_outcome =
    Returns yaml
  | RaisesTimeoutError
  | RaisesCancelledError
  | RaisesIgnoreResult
  | RaisesIgnoreCheck
  | RaisesIncompleteResult yaml error_dict
  | RaisesCheckException error_dict
  | RaisesException string

text \<open>
  \<^verbatim>\<open>
  try:
      res = await asyncio.wait_for(
          fun(asset, asset_config, config), timeout=timeout)
      if not isinstance(res, dict):
          raise TypeError(
              'expecting type `dict` as check result '
              f'but got type `{type(res).__name__}`')
  except asyncio.TimeoutError:
      raise CheckException('timed out')
  except asyncio.CancelledError:
      if my_task is self._checks.get(path):
          # cancelled from within, just raise
          raise CheckException('cancelled')
      logging.warning(f'cancelled; {asset}')
      break
  except (IgnoreCheckException,
          IgnoreResultException,
          CheckException):
      raise
  except Exception as e:
      # fall-back to exception class name
      error_msg = str(e) or type(e).__name__
      raise CheckException(error_msg)
  \<close>
  The inner \<open>try\<close> ends with a result, with one of the four exceptions it lets
  through, or with \<open>break\<close>.
\<close>

datatype inner_result =
    Res yaml
  | IgnoreResultException
  | IgnoreCheckException
  | IncompleteResultException yaml error_dict
  | CheckException error_dict
  | BreakLoop

fun type_name :: "yaml \<Rightarrow> string" where
  "type_name YNone = ''NoneType''"
| "type_name (YBool b) = ''bool''"
| "type_name (YInt i) = ''int''"
| "type_name (YStr s) = ''str''"
| "type_name (YBytes b) = ''bytes''"
| "type_name (YList xs) = ''list''"
| "type_name (YDict d) = ''dict''"

definition inner_try :: "nat \<Rightarrow> path \<Rightarrow> 'c probe \<Rightarrow> check_outcome \<Rightarrow> inner_result" where
  "inner_try my_task path self outcome =
     (case outcome of
        Returns res \<Rightarrow>
          if \<not> is_dict res
          then CheckException (ErrorDict
                 (''expecting type `dict` as check result but got type `'' @
                  type_name res @ ''`'') None)
          else Res res
      | RaisesTimeoutError \<Rightarrow> CheckException (ErrorDict ''timed out'' None)
      | RaisesCancelledError \<Rightarrow>
          if map_of (checks self) path = Some my_task
          then CheckException (ErrorDict ''cancelled'' None)
          else BreakLoop
      | RaisesIgnoreResult \<Rightarrow> IgnoreResultException
      | RaisesIgnoreCheck \<Rightarrow> IgnoreCheckException
      | RaisesIncompleteResult res e \<Rightarrow> IncompleteResultException res e
      | RaisesCheckException e \<Rightarrow> CheckException e
      | RaisesException error_msg \<Rightarrow> CheckException (ErrorDict error_msg None))"

text \<open>
  \<^verbatim>\<open>
  def _asset_config(self, asset_id: int, use: Optional[str]) -> dict:
      try:
          self._read_local_config()
      except Exception:
          logging.warning('new config file invalid, keep using previous')
      return get_config(self._local_config, self.name, asset_id, use)
  \<close>
  config.py declares \<open>get_config(conf, probe_name, asset_id)\<close> with three parameters.
  The call here passes four positional arguments, so Python raises \<open>TypeError\<close> at
  the call, before the body of \<open>get_config\<close> runs, whatever the arguments are:
  that is \<open>get_config_with_use\<close>. The result of \<open>_asset_config\<close> is what the call
  returns or raises, the probe and the configuration file after it.
\<close>

definition get_config_with_use ::
  "py_dict option \<Rightarrow> string \<Rightarrow> int \<Rightarrow> yaml \<Rightarrow> py_error + yaml" where
  "get_config_with_use conf probe_name asset_id use = Inl TypeError"

definition asset_config ::
  "fernet \<Rightarrow> yaml_lib \<Rightarrow> int \<Rightarrow> config_file \<Rightarrow> int \<Rightarrow> yaml \<Rightarrow> 'c probe
     \<Rightarrow> (py_error + yaml) \<times> 'c probe \<times> config_file" where
  "asset_config FERNET yaml now file asset_id use self =
     (let (r, file') = read_local_config FERNET yaml now file self;
          self' = (case r of Inl e \<Rightarrow> self | Inr read \<Rightarrow> read)
      in (get_config_with_use (local_config self') (name self') asset_id use, self', file'))"

text \<open>
  \<^verbatim>\<open>
  try:
      <the inner try>
  except IgnoreResultException:
      logging.info(f'ignore result; {asset}')
  except IgnoreCheckException:
      logging.warning(f'ignore check; {asset}')
      break
  except IncompleteResultException as e:
      self.send(path, e.result, e.to_dict(), ts)
  except CheckException as e:
      self.send(path, None, e.to_dict(), ts)
  else:
      self.send(path, res, None, ts)
  \<close>
  The \<open>try\<close> statement of the loop body, given what awaiting the check does. It
  continues the loop or leaves it by \<open>break\<close>; after a \<open>break\<close> the coroutine is
  over and the task is done. The result is \<open>None\<close> when \<open>send\<close> does not return.
\<close>

datatype 'c loop_step = Continue "'c probe" | Break "'c probe" | Raise py_error "'c probe"

definition task_done :: "nat \<Rightarrow> 'c probe \<Rightarrow> 'c probe" where
  "task_done t self = self\<lparr>tasks := (tasks self)[t := TaskDone]\<rparr>"

definition check_and_send ::
  "int \<Rightarrow> (path \<times> check_data \<Rightarrow> string) \<Rightarrow> int \<Rightarrow> nat \<Rightarrow> path \<Rightarrow> check_outcome \<Rightarrow> int
     \<Rightarrow> 'c probe \<Rightarrow> 'c loop_step option" where
  "check_and_send max_size to_bytes now my_task path outcome ts self =
     (case inner_try my_task path self outcome of
        IgnoreResultException \<Rightarrow> Some (Continue self)
      | IgnoreCheckException \<Rightarrow> Some (Break (task_done my_task self))
      | IncompleteResultException res e \<Rightarrow>
          map_option Continue (send max_size to_bytes now self path (Some res) (Some e) ts)
      | CheckException e \<Rightarrow>
          map_option Continue (send max_size to_bytes now self path None (Some e) ts)
      | Res res \<Rightarrow>
          map_option Continue (send max_size to_bytes now self path (Some res) None ts)
      | BreakLoop \<Rightarrow> Some (Break (task_done my_task self)))"

text \<open>
  \<^verbatim>\<open>
  (asset_name, _), config = self._checks_config[path]
  interval = config.get('_interval')
  timeout = 0.8 * interval
  if asset.name != asset_name:
      asset = Asset(asset_id, asset_name, check_key)
  asset_config = self._asset_config(asset.id, config.get('_use'))
  logging.debug(f'run check; {asset}')
  try:
      ...
  \<close>
  One pass of the \<open>while True\<close> body of the loop run by task \<open>my_task\<close> for
  \<open>path\<close>, from the point where the sleep has returned. What the pass needs beside
  the probe is collected in \<open>loop_env\<close>: the package size limit, the DUMP serialiser
  and the clock of \<open>send\<close>, the cipher, the YAML library and the file time of
  \<open>_read_local_config\<close>, and \<open>config.get\<close> of the check configuration.
  \<open>0.8 * interval\<close> raises \<open>TypeError\<close> unless \<open>interval\<close> is a number. None of
  these statements stands inside a \<open>try\<close>: an exception here leaves the loop, so the
  coroutine is over and the task is done. The result is the step and the configuration
  file after the pass.
\<close>

record 'c loop_env =
  env_max_size :: int
  env_to_bytes :: "path \<times> check_data \<Rightarrow> string"
  env_time :: int
  env_fernet :: fernet
  env_yaml :: yaml_lib
  env_mtime :: int
  env_config_get :: "'c \<Rightarrow> string \<Rightarrow> yaml"

fun times_float :: "yaml \<Rightarrow> py_error + unit" where
  "times_float (YInt i) = Inr ()"
| "times_float (YBool b) = Inr ()"
| "times_float v = Inl TypeError"

definition run_check_loop_pass ::
  "'c loop_env \<Rightarrow> config_file \<Rightarrow> nat \<Rightarrow> path \<Rightarrow> check_outcome \<Rightarrow> int \<Rightarrow> 'c probe
     \<Rightarrow> ('c loop_step \<times> config_file) option" where
  "run_check_loop_pass env file my_task path outcome ts self =
     (case map_of (checks_config self) path of
        None \<Rightarrow> Some (Raise KeyError (task_done my_task self), file)
      | Some (names, config) \<Rightarrow>
          (case times_float (env_config_get env config ''_interval'') of
             Inl e \<Rightarrow> Some (Raise e (task_done my_task self), file)
           | Inr timeout \<Rightarrow>
               (let (options, self', file') =
                      asset_config (env_fernet env) (env_yaml env) (env_mtime env) file
                        (fst path) (env_config_get env config ''_use'') self
                in (case options of
                      Inl e \<Rightarrow> Some (Raise e (task_done my_task self'), file')
                    | Inr asset_options \<Rightarrow>
                        map_option (\<lambda>step. (step, file'))
                          (check_and_send (env_max_size env) (env_to_bytes env) (env_time env)
                             my_task path outcome ts self')))))"

text \<open>
  For the statements about \<open>send\<close>: writing one frame to the transport, if there is
  one, and the error dictionary of the oversize branch for a frame of \<open>n\<close> bytes.
\<close>

definition write_frame :: "string \<Rightarrow> 'c probe \<Rightarrow> 'c probe" where
  "write_frame data self =
     (case protocol self of
        None \<Rightarrow> self
      | Some proto \<Rightarrow>
          (case transport proto of
             None \<Rightarrow> self
           | Some written \<Rightarrow>
               self\<lparr>protocol := Some (proto\<lparr>transport := Some (written @ [data])\<rparr>)\<rparr>))"

definition too_large :: "nat \<Rightarrow> error_dict" where
  "too_large n = ErrorDict (''data package too large ('' @ str_nat n @ '' bytes)'') None"

section \<open>Example inputs\<close>




text \<open>An announce request and a serialiser that writes the pid in unary.\<close>

definition example_pkg :: pkg where
  "example_pkg = \<lparr>pkg_pid = 0, pkg_tp = 1, pkg_partid = 0, pkg_data = YList [YStr ''probe'']\<rparr>"

definition example_to_bytes :: "pkg \<Rightarrow> string" where
  "example_to_bytes p = replicate (nat (pkg_pid p)) (CHR ''.'')"

text \<open>
  A probe with three running assignments, as in the upsert scenario of the spec, an
  upsert message for asset 1 (one entry has an unregistered check key), and a stand-in
  for the DUMP serialiser: a four-byte tag followed by the text of the result and of the
  error message.
\<close>

definition example_state :: "int probe" where
  "example_state =
     \<lparr>name = ''exampleProbe'', checks_funs = {''A'', ''B'', ''C'', ''D''},
      protocol = Some (connection_made [] protocol_init),
      local_config = None, local_config_mtime = None,
      checks_config = [((1, 1), (''h1'', ''A''), 10), ((1, 2), (''h1'', ''B''), 10),
                       ((2, 3), (''h2'', ''C''), 10)],
      checks = [((1, 1), 0), ((1, 2), 1), ((2, 3), 2)],
      tasks = [TaskPending, TaskPending, TaskPending]\<rparr>"

definition example_incoming :: "(path \<times> names \<times> int) list" where
  "example_incoming =
     [((1, 1), (''h1'', ''A''), 10), ((1, 4), (''h1'', ''D''), 10),
      ((1, 5), (''h1'', ''X''), 10)]"

definition example_frame :: "path \<times> check_data \<Rightarrow> string" where
  "example_frame x =
     (case x of (path, d) \<Rightarrow>
        ''DUMP'' @ (case cd_result d of Some (YStr s) \<Rightarrow> s | _ \<Rightarrow> []) @
        (case cd_error d of Some e \<Rightarrow> message e | None \<Rightarrow> []))"

text \<open>A protocol object whose connection has just been made.\<close>

definition connected :: protocol where
  "connected = connection_made [] protocol_init"

text \<open>
  A probe as \<open>__init__\<close> leaves it when the configuration file holds only the header
  comment (\<open>yaml.safe_load\<close> gives \<open>None\<close>, the local configuration is empty), the
  same probe after \<open>set_assets\<close> has started one check, and the surroundings of that
  check's loop. The check configuration is the integer of its \<open>_interval\<close>.
\<close>

definition example_fernet :: fernet where
  "example_fernet =
     \<lparr>fernet_encrypt = (\<lambda>b. CHR ''#'' # b),
      fernet_decrypt = (\<lambda>t. case t of [] \<Rightarrow> None
                               | c # b \<Rightarrow> if c = CHR ''#'' then Some b else None)\<rparr>"

definition example_yaml :: yaml_lib where
  "example_yaml = \<lparr>safe_load = (\<lambda>text. Inr YNone), dump = (\<lambda>doc. [])\<rparr>"

definition example_file :: config_file where
  "example_file = \<lparr>st_mtime = 1, file_text = HEADER_FILE\<rparr>"

definition example_env :: "int loop_env" where
  "example_env =
     \<lparr>env_max_size = 500000, env_to_bytes = example_frame, env_time = 100,
      env_fernet = example_fernet, env_yaml = example_yaml, env_mtime = 2,
      env_config_get = (\<lambda>c k. if k = ''_interval'' then YInt c else YNone)\<rparr>"

definition fresh_probe :: "int probe" where
  "fresh_probe =
     \<lparr>name = ''exampleProbe'', checks_funs = {''A'', ''B'', ''C'', ''D''},
      protocol = Some connected,
      local_config = Some [], local_config_mtime = Some 1,
      checks_config = [], checks = [], tasks = []\<rparr>"

definition running_probe :: "int probe" where
  "running_probe =
     fresh_probe\<lparr>checks_config := [((1, 1), (''h1'', ''A''), 10)],
                 checks := [((1, 1), 0)], tasks := [TaskPending]\<rparr>"

section \<open>Theorems\<close>

subsection \<open>The package size limit\<close>

lemma out_of_bounds_never: "\<not> out_of_bounds x"
  by (simp add: out_of_bounds_def)

lemma MAX_PACKAGE_SIZE_accepts_all: "MAX_PACKAGE_SIZE (IntText n) = Inr (n * 1000)"
  by (simp add: MAX_PACKAGE_SIZE_def getenv_int_def out_of_bounds_never)

lemma MAX_PACKAGE_SIZE_default: "MAX_PACKAGE_SIZE Unset = Inr 500000"
  by (simp add: MAX_PACKAGE_SIZE_def getenv_int_def out_of_bounds_never)

text \<open>
  C4. The claim is that a value of \<open>MAX_PACKAGE_SIZE\<close> outside 1..2000 (kilobytes) is
  rejected at startup. The bounds test of the code can never be true, so
  \<open>MAX_PACKAGE_SIZE=5000\<close> is accepted and the limit becomes 5000000 bytes, and
  \<open>MAX_PACKAGE_SIZE=0\<close> is accepted and the limit becomes 0 bytes.
\<close>

theorem MAX_PACKAGE_SIZE_not_clamped:
  "MAX_PACKAGE_SIZE (IntText 5000) = Inr 5000000 \<and> MAX_PACKAGE_SIZE (IntText 0) = Inr 0"
  by (simp add: MAX_PACKAGE_SIZE_def getenv_int_def out_of_bounds_def)

subsection \<open>Field encryption of the local configuration\<close>

text \<open>
  C7. The claim is that encrypt followed by decrypt restores every plain-string
  \<open>password\<close>/\<open>secret\<close> leaf. At the document \<open>{secret: {password: "x"}}\<close> the
  only sensitive leaf is the inner \<open>password\<close>, a plain string. \<open>encrypt\<close> falls
  through to its mapping branch at \<open>secret\<close> and encrypts the inner leaf; \<open>decrypt\<close>
  takes its first branch at \<open>secret\<close> (a sensitive key holding a mapping), finds no
  \<open>encrypted\<close> entry and never reaches its own mapping branch, so the inner leaf
  stays a one-key \<open>{encrypted: token}\<close> mapping, whatever the cipher is.
\<close>

theorem encrypt_decrypt_nested_secret_stays_encrypted:
  "decrypt fernet (encrypt fernet [(''secret'', YDict [(''password'', YStr ''x'')])]) =
     Inr [(''secret'',
           YDict [(''password'',
                   YDict [(''encrypted'', YBytes (fernet_encrypt fernet (str_encode ''x'')))])])]"
  by (simp add: sensitive_def dict_get_def)

text \<open>
  Away from that case the round trip holds: in a document where no sensitive key holds
  a mapping, encrypting and then decrypting gives the document back, every sensitive
  leaf included. And an \<open>{encrypted: token}\<close> leaf decrypts to its plaintext, which
  encrypts to a token that decrypts to the same plaintext.
\<close>

lemma encrypt_then_decrypt:
  assumes "fernet_ok fernet"
  shows "flat_secrets layer \<Longrightarrow> decrypt fernet (encrypt fernet layer) = Inr layer"
    and "flat_secrets_items v \<Longrightarrow> decrypt_items fernet (encrypt_items fernet v) = Inr v"
proof (induction layer and v rule: flat_secrets_flat_secrets_items.induct)
  case 1
  then show ?case by simp
next
  case (2 k v layer)
  then show ?case
    using assms
    by (cases v)
       (auto simp: fernet_ok_def dict_get_def str_encode_def bytes_decode_def)
next
  case 3
  then show ?case by simp
next
  case (4 item v)
  then show ?case by (cases item) auto
qed

lemma decrypt_then_encrypt_leaf:
  assumes "fernet_ok fernet" and "sensitive k"
    and "token \<noteq> []" and "fernet_decrypt fernet token = Some plain"
  shows "decrypt fernet [(k, YDict [(''encrypted'', YBytes token)])] = Inr [(k, YStr plain)]"
    and "decrypt fernet (encrypt fernet [(k, YStr plain)]) = Inr [(k, YStr plain)]"
  using assms
  by (simp_all add: fernet_ok_def dict_get_def str_encode_def bytes_decode_def)

subsection \<open>Resolving the configuration of an asset\<close>






text \<open>
  Two things the code does at the edge of that. An entry that matches and has no
  \<open>config\<close> mapping ends the search with the empty mapping. And outside the document
  shape of the spec, where \<open>assets\<close> is a list when it is present: a truthy
  \<open>assets\<close> that cannot be iterated makes the \<open>for\<close> loop raise \<open>TypeError\<close>.
\<close>

lemma get_config_match_without_config:
  "get_config [(''p'', YDict [(''config'', YDict [(''a'', YInt 1)]),
                              (''assets'', YList [YDict [(''id'', YInt 1)]])])] ''p'' 1
     = Inr (YDict [])"
  by (simp add: get_config_def dict_get_def id_matches_def dict_or_empty_def)

lemma get_config_assets_not_iterable:
  "get_config [(''p'', YDict [(''assets'', YInt 5)])] ''p'' 1 = Inl TypeError"
  by (simp add: get_config_def dict_get_def)

lemma assets_entries_absent_or_list:
  "assets_entries YNone = Inr []" "assets_entries (YList items) = Inr items"
  by (auto simp: assets_entries_def)



subsection \<open>The protocol client\<close>

lemma request_pid: "pid (snd (snd (request to_bytes p timeout s))) = (pid s + 1) mod 65536"
  by (simp add: request_def Let_def split: option.splits)

lemma request_pkg_pid:
  "pkg_pid (fst (snd (request to_bytes p timeout s))) = (pid s + 1) mod 65536"
  by (simp add: request_def Let_def split: option.splits)

lemma request_requests:
  "requests (snd (snd (request to_bytes p timeout s))) =
     AList.update ((pid s + 1) mod 65536)
       (length (futures s), if timeout_truthy timeout then Some (length (timers s)) else None)
       (requests s)"
  by (simp add: request_def Let_def split: option.splits)

lemma reachable_invariant:
  "reachable to_bytes s \<Longrightarrow> distinct (map fst (requests s)) \<and> 0 \<le> pid s \<and> pid s < 65536"
proof (induction rule: reachable.induct)
  case start
  then show ?case by (simp add: protocol_init_def)
next
  case (made s t)
  then show ?case by (simp add: connection_made_def)
next
  case (lost s)
  then show ?case by (simp add: connection_lost_def)
next
  case (requested s p timeout)
  then show ?case by (simp add: request_pid request_requests distinct_update)
next
  case (timed_out s t)
  then show ?case
    by (auto simp: timer_wakes_def Let_def distinct_delete split: option.splits)
next
  case (answered s p)
  then show ?case by (auto simp: get_future_def distinct_delete split: option.splits)
next
  case (received s b q)
  then show ?case by simp
qed

lemma request_futures:
  "futures (snd (snd (request to_bytes p timeout s))) = futures s @ [Pending]"
  by (simp add: request_def Let_def split: option.splits)

lemma reachable_issue: "reachable to_bytes s \<Longrightarrow> reachable to_bytes (issue to_bytes p n s)"
  by (induction n) (auto intro: reachable.requested)

lemma issue_futures: "futures (issue to_bytes p n s) = futures s @ replicate n Pending"
  by (induction n) (simp_all add: request_futures replicate_append_same)

lemma issue_pid:
  "0 \<le> pid s \<Longrightarrow> pid s < 65536 \<Longrightarrow> pid (issue to_bytes p n s) = (pid s + int n) mod 65536"
proof (induction n)
  case 0
  then show ?case by simp
next
  case (Suc n)
  then show ?case by (simp add: request_pid mod_simps add.commute add.left_commute)
qed

text \<open>
  After \<open>n\<close> requests on a protocol that had none, with \<open>n\<close> up to \<open>2^16\<close>, the
  future of the request number \<open>j\<close> is pending under its own pid.
\<close>

lemma issue_table:
  assumes "pid s = 0" and "requests s = []" and "futures s = []"
  shows "n \<le> 65536 \<Longrightarrow> j < n \<Longrightarrow>
         map_of (requests (issue to_bytes p n s)) ((int j + 1) mod 65536) = Some (j, None)"
proof (induction n)
  case 0
  then show ?case by simp
next
  case (Suc n)
  have pn: "pid (issue to_bytes p n s) = int n"
    using issue_pid [of s to_bytes p n] assms(1) Suc.prems(1) by simp
  have tab: "requests (issue to_bytes p (Suc n) s) =
     AList.update ((int n + 1) mod 65536) (n, None) (requests (issue to_bytes p n s))"
    by (simp add: request_requests pn issue_futures assms(3) timeout_truthy_def)
  show ?case
  proof (cases "j = n")
    case True
    then show ?thesis by (simp add: tab update_conv' del: issue.simps)
  next
    case False
    with Suc.prems have jn: "j < n" by simp
    have "(int j + 1) mod 65536 \<noteq> (int n + 1) mod 65536"
    proof -
      have "int n + 1 \<le> 65536" "int j + 1 < int n + 1" using Suc.prems jn by simp_all
      then show ?thesis
        by (cases "int n + 1 = 65536") simp_all
    qed
    with Suc.IH jn Suc.prems(1) show ?thesis by (simp add: tab update_conv' del: issue.simps)
  qed
qed

lemma connected_facts:
  "pid connected = 0" "requests connected = []" "futures connected = []"
  by (simp_all add: connected_def connection_made_def protocol_init_def)

lemma reachable_connected: "reachable to_bytes connected"
  unfolding connected_def by (intro reachable.made reachable.start)

text \<open>
  C8, as the claim states it, fails: a pid does not stand for at most one live pending
  request. On a connected protocol \<open>2^16\<close> requests are issued and none is answered.
  The first of them (future 0) is still pending under pid 1. The next request is given
  pid 1 again: its future (future 65536) takes the place of future 0 in the table.
  Both futures are pending, both requests carry pid 1, and the older one can no longer
  be found by a response.
\<close>

theorem request_pid_collision_counterexample:
  "reachable example_to_bytes (issue example_to_bytes example_pkg 65536 connected) \<and>
   map_of (requests (issue example_to_bytes example_pkg 65536 connected)) 1 = Some (0, None) \<and>
   futures (issue example_to_bytes example_pkg 65536 connected) ! 0 = Pending \<and>
   pkg_pid (fst (snd (request example_to_bytes example_pkg None
       (issue example_to_bytes example_pkg 65536 connected)))) = 1 \<and>
   map_of (requests (snd (snd (request example_to_bytes example_pkg None
       (issue example_to_bytes example_pkg 65536 connected))))) 1 = Some (65536, None) \<and>
   futures (snd (snd (request example_to_bytes example_pkg None
       (issue example_to_bytes example_pkg 65536 connected)))) ! 0 = Pending \<and>
   futures (snd (snd (request example_to_bytes example_pkg None
       (issue example_to_bytes example_pkg 65536 connected)))) ! 65536 = Pending"
proof -
  let ?s = "issue example_to_bytes example_pkg 65536 connected"
  have r: "reachable example_to_bytes ?s"
    by (intro reachable_issue reachable_connected)
  have t: "map_of (requests ?s) 1 = Some (0, None)"
    using issue_table [OF connected_facts, of 65536 0 example_to_bytes example_pkg]
    by simp
  have f: "futures ?s = replicate 65536 Pending"
    by (simp add: issue_futures connected_facts)
  have p: "pid ?s = 0"
    using issue_pid [of connected example_to_bytes example_pkg 65536] connected_facts
    by simp
  have f0: "futures ?s ! 0 = Pending"
    unfolding f by (rule nth_replicate) simp
  have np: "pkg_pid (fst (snd (request example_to_bytes example_pkg None ?s))) = 1"
    by (simp add: request_pkg_pid p)
  have nt: "map_of (requests (snd (snd (request example_to_bytes example_pkg None ?s)))) 1 =
            Some (65536, None)"
    by (simp add: request_requests p f update_conv' timeout_truthy_def)
  have nf0: "futures (snd (snd (request example_to_bytes example_pkg None ?s))) ! 0 = Pending"
    and nf1: "futures (snd (snd (request example_to_bytes example_pkg None ?s))) ! 65536 = Pending"
    by (simp_all add: request_futures f nth_append)
  show ?thesis using r t f0 np nt nf0 nf1 by blast
qed

text \<open>
  C8, amended. In every reachable state the pid counter lies in \<open>[0, 2^16)\<close> and the
  pending-request table has one entry per pid at most. A call of \<open>request\<close> gives the
  package the successor of the counter, wrapping from \<open>2^16 - 1\<close> to \<open>0\<close>, leaves
  the counter at that pid, and binds that pid to the new future in the table: every
  other pid keeps its entry, and an entry that was still pending under the same pid is
  replaced, so that the table never holds two entries for one pid although two live
  requests can carry it.
\<close>

theorem request_pid_cycles_and_table_unique:
  assumes "reachable to_bytes s"
  shows "0 \<le> pid s \<and> pid s < 2 ^ 16 \<and> distinct (map fst (requests s)) \<and>
         pkg_pid (fst (snd (request to_bytes p timeout s))) =
           (if pid s = 2 ^ 16 - 1 then 0 else pid s + 1) \<and>
         pid (snd (snd (request to_bytes p timeout s))) =
           pkg_pid (fst (snd (request to_bytes p timeout s))) \<and>
         map_of (requests (snd (snd (request to_bytes p timeout s)))) =
           (map_of (requests s))
             (pkg_pid (fst (snd (request to_bytes p timeout s))) \<mapsto>
                (length (futures s),
                 if timeout_truthy timeout then Some (length (timers s)) else None)) \<and>
         distinct (map fst (requests (snd (snd (request to_bytes p timeout s)))))"
proof -
  have inv: "distinct (map fst (requests s))" "0 \<le> pid s" "pid s < 65536"
    using reachable_invariant [OF assms] by simp_all
  have next_pid: "(pid s + 1) mod 65536 = (if pid s = 65535 then 0 else pid s + 1)"
    using inv(2,3) by simp
  have after: "distinct (map fst (requests (snd (snd (request to_bytes p timeout s)))))"
    using reachable_invariant [OF reachable.requested [OF assms]] by simp
  show ?thesis
    using inv after next_pid
    by (simp add: request_pid request_pkg_pid request_requests update_conv')
qed

text \<open>
  The statement at the wrap-around, with a full table: after \<open>2^16 - 1\<close> unanswered
  requests the counter is \<open>2^16 - 1\<close>; the next request gets pid 0, and the first
  request is still pending under pid 1.
\<close>

theorem request_pid_cycles_and_table_unique_witness:
  "reachable example_to_bytes (issue example_to_bytes example_pkg 65535 connected) \<and>
   pid (issue example_to_bytes example_pkg 65535 connected) = 65535 \<and>
   map_of (requests (issue example_to_bytes example_pkg 65535 connected)) 1 = Some (0, None) \<and>
   pkg_pid (fst (snd (request example_to_bytes example_pkg None
       (issue example_to_bytes example_pkg 65535 connected)))) = 0 \<and>
   pid (snd (snd (request example_to_bytes example_pkg None
       (issue example_to_bytes example_pkg 65535 connected)))) = 0 \<and>
   map_of (requests (snd (snd (request example_to_bytes example_pkg None
       (issue example_to_bytes example_pkg 65535 connected))))) 0 = Some (65535, None) \<and>
   map_of (requests (snd (snd (request example_to_bytes example_pkg None
       (issue example_to_bytes example_pkg 65535 connected))))) 1 = Some (0, None)"
proof -
  let ?s = "issue example_to_bytes example_pkg 65535 connected"
  have r: "reachable example_to_bytes ?s"
    by (intro reachable_issue reachable_connected)
  have p: "pid ?s = 65535"
    using issue_pid [of connected example_to_bytes example_pkg 65535] connected_facts
    by simp
  have t: "map_of (requests ?s) 1 = Some (0, None)"
    using issue_table [OF connected_facts, of 65535 0 example_to_bytes example_pkg]
    by simp
  have f: "length (futures ?s) = 65535"
    by (simp add: issue_futures connected_facts)
  note w = request_pid_cycles_and_table_unique [OF r, where p = example_pkg and timeout = None]
  from w p have a: "pkg_pid (fst (snd (request example_to_bytes example_pkg None ?s))) = 0"
    by simp
  from w a have b: "pid (snd (snd (request example_to_bytes example_pkg None ?s))) = 0"
    by simp
  from w have m: "map_of (requests (snd (snd (request example_to_bytes example_pkg None ?s)))) =
      (map_of (requests ?s))
        (pkg_pid (fst (snd (request example_to_bytes example_pkg None ?s))) \<mapsto>
           (length (futures ?s), if timeout_truthy None then Some (length (timers ?s)) else None))"
    by blast
  have c: "map_of (requests (snd (snd (request example_to_bytes example_pkg None ?s)))) 0 =
           Some (65535, None)"
    unfolding m a by (simp add: f timeout_truthy_def)
  have d: "map_of (requests (snd (snd (request example_to_bytes example_pkg None ?s)))) 1 =
           Some (0, None)"
    unfolding m a by (simp add: t)
  show ?thesis using r p t a b c d by blast
qed

text \<open>
  C10. \<open>is_connected\<close> says whether a transport is attached. Without one, \<open>request\<close>
  returns no future at all: the call raises \<open>AssertionError\<close>. With one, it returns
  the new future.
\<close>

theorem request_without_transport_fails_assertion:
  "(is_connected s \<longleftrightarrow> transport s \<noteq> None) \<and>
   (\<not> is_connected s \<longrightarrow> fst (request to_bytes p timeout s) = Inl AssertionError) \<and>
   (is_connected s \<longrightarrow> fst (request to_bytes p timeout s) = Inr (length (futures s)))"
  by (auto simp: is_connected_def request_def Let_def split: option.splits)

theorem request_without_transport_fails_assertion_witness:
  "\<not> is_connected protocol_init \<and>
   fst (request example_to_bytes example_pkg (Some 10) protocol_init) = Inl AssertionError \<and>
   is_connected (connection_made [] protocol_init) \<and>
   fst (request example_to_bytes example_pkg (Some 10) (connection_made [] protocol_init)) = Inr 0"
  using request_without_transport_fails_assertion
          [where s = protocol_init and to_bytes = example_to_bytes and p = example_pkg
             and timeout = "Some 10"]
    request_without_transport_fails_assertion
          [where s = "connection_made [] protocol_init" and to_bytes = example_to_bytes
             and p = example_pkg and timeout = "Some 10"]
  by (simp add: is_connected_def connection_made_def protocol_init_def)

text \<open>
  C1, as the claim states it, fails: a request is issued without a timeout on a
  connected protocol and the connection is then lost. The future is still pending (no
  exception has been set on it) and its entry is still in the pending-request table.
\<close>

theorem connection_lost_counterexample:
  "futures (connection_lost (snd (snd (request example_to_bytes example_pkg None
      (connection_made [] protocol_init))))) = [Pending] \<and>
   requests (connection_lost (snd (snd (request example_to_bytes example_pkg None
      (connection_made [] protocol_init))))) = [(1, 0, None)]"
  by (simp add: connection_lost_def request_def connection_made_def protocol_init_def
        Let_def timeout_truthy_def)

text \<open>
  C1, amended. \<open>connection_lost\<close> clears the buffered bytes and the partial package
  and drops the transport reference; the pending-request table, the futures and the
  timers are left exactly as they were, so no outstanding future is failed by it.
\<close>

theorem connection_lost_effect:
  "buffered_data (connection_lost s) = [] \<and>
   package (connection_lost s) = None \<and>
   transport (connection_lost s) = None \<and>
   \<not> is_connected (connection_lost s) \<and>
   requests (connection_lost s) = requests s \<and>
   futures (connection_lost s) = futures s \<and>
   timers (connection_lost s) = timers s \<and>
   pid (connection_lost s) = pid s"
  by (simp add: connection_lost_def is_connected_def)

subsection \<open>Reading the local configuration file\<close>

lemma read_local_config_keeps_file:
  "snd (read_local_config FERNET yaml now file self) = file"
  by (simp add: read_local_config_def encrypt_returns_def Let_def
        split: sum.splits prod.splits)

lemma read_local_config_touches_local_config_only:
  "fst (read_local_config FERNET yaml now file self) = Inr self' \<Longrightarrow>
   checks self' = checks self \<and> tasks self' = tasks self \<and>
   checks_config self' = checks_config self \<and> protocol self' = protocol self"
  by (auto simp: read_local_config_def Let_def split: if_splits sum.splits prod.splits)

text \<open>
  C2. The claim is that reading a document with a plain-string \<open>password\<close> or
  \<open>secret\<close> leaf rewrites the file. \<open>_read_local_config\<close> rewrites only when
  \<open>changed\<close> is truthy, and \<open>changed\<close> is the value of the call of \<open>encrypt\<close>,
  which has no \<open>return\<close> statement: whatever the document, the cipher and the YAML
  library are, the file after the call is the file before it.
\<close>

theorem read_local_config_never_rewrites:
  "snd (read_local_config FERNET yaml now file self) = file"
  by (simp add: read_local_config_def encrypt_returns_def Let_def
        split: sum.splits prod.splits)


subsection \<open>Reconciling the assignments\<close>

lemma map_of_dict_update: "map_of (dict_update d other) = map_of d ++ map_of (rev other)"
  unfolding dict_update_def
proof (induction other arbitrary: d)
  case Nil
  then show ?case by simp
next
  case (Cons kv other)
  obtain k v where kv: "kv = (k, v)" by (cases kv)
  show ?case
    by (simp add: kv Cons.IH update_conv' fun_eq_iff map_add_def split: option.splits)
qed

lemma map_of_filter_key:
  "map_of (filter (\<lambda>(k, v). P k) d) = map_of d |` {k. P k}"
  by (induction d) (auto simp: restrict_map_def fun_eq_iff)

lemma distinct_dict_update:
  "distinct (map fst d) \<Longrightarrow> distinct (map fst (dict_update d other))"
  unfolding dict_update_def
  by (induction other arbitrary: d) (auto simp: distinct_update)



lemma map_of_rev_distinct:
  "distinct (map fst xs) \<Longrightarrow> map_of (rev xs) = map_of xs"
  by (rule map_of_inject_set [THEN iffD2]) (simp_all add: distinct_rev rev_map [symmetric])

lemma upsert_checks_config_map:
  "map_of (upsert_checks_config funs old (asset_id, incoming)) =
     (map_of old |` {path. fst path \<noteq> asset_id}) ++
     map_of (rev (filter (\<lambda>(path, names, config). snd names \<in> funs) incoming))"
proof -
  have "distinct (map fst (dict_update [] xs))" for xs :: "(path \<times> names \<times> 'a) list"
    by (rule distinct_dict_update) simp
  then show ?thesis
    by (simp add: upsert_checks_config_def Let_def map_of_dict_update map_of_rev_distinct
          map_of_filter_key [of "\<lambda>path. fst path \<noteq> asset_id"])
qed

lemma set_new_checks_config_installs:
  "set_new_checks_config new self = Inr self' \<Longrightarrow> checks_config self' = new"
  by (auto simp: set_new_checks_config_def Let_def split: sum.splits prod.splits)

text \<open>
  C5, as the claim states it, fails in its last part. \<open>_on_upsert_asset\<close> does not
  check that the incoming paths belong to \<open>asset_id\<close>: an upsert for asset 1 whose
  list holds an entry for path \<open>(2, 3)\<close> replaces the assignment of asset 2.
\<close>

theorem upsert_asset_counterexample:
  "map_of (checks_config example_state) (2, 3) = Some ((''h2'', ''C''), 10) \<and>
   map_of (upsert_checks_config (checks_funs example_state) (checks_config example_state)
             (1, [((2, 3), (''h2'', ''C''), 99)])) (2, 3) = Some ((''h2'', ''C''), 99)"
  by (simp add: example_state_def upsert_checks_config_def dict_update_def)

text \<open>
  C5, amended. For every current assignment-config map \<open>old\<close> and every upsert message
  \<open>(asset_id, incoming)\<close>, the map handed to the reconciler is \<open>old\<close> restricted to
  the paths whose first component differs from \<open>asset_id\<close>, overridden by the
  incoming entries whose check key is registered (of two incoming entries with the same
  path the later one counts, hence \<open>rev\<close>). So a path that no registered incoming
  entry names keeps its old assignment when it belongs to another asset and has none
  when it belongs to \<open>asset_id\<close>: entries with unknown check keys add nothing, and the
  assignments of other assets stay as they were unless the message itself names their
  path. When the reconciliation returns, this map is the installed configuration.
\<close>

theorem upsert_asset_desired_map:
  "map_of (upsert_checks_config funs old (asset_id, incoming)) =
     (map_of old |` {path. fst path \<noteq> asset_id}) ++
     map_of (rev (filter (\<lambda>(path, names, config). snd names \<in> funs) incoming)) \<and>
   (\<forall>path. path \<notin> fst ` set (filter (\<lambda>(path, names, config). snd names \<in> funs) incoming) \<longrightarrow>
      map_of (upsert_checks_config funs old (asset_id, incoming)) path =
        (if fst path \<noteq> asset_id then map_of old path else None)) \<and>
   (\<forall>self self'. on_upsert_asset (asset_id, incoming) self = Inr self' \<longrightarrow>
      checks_config self' =
        upsert_checks_config (checks_funs self) (checks_config self) (asset_id, incoming))"
proof (intro conjI allI impI)
  show eq: "map_of (upsert_checks_config funs old (asset_id, incoming)) =
     (map_of old |` {path. fst path \<noteq> asset_id}) ++
     map_of (rev (filter (\<lambda>(path, names, config). snd names \<in> funs) incoming))"
    by (rule upsert_checks_config_map)
next
  fix path
  assume "path \<notin> fst ` set (filter (\<lambda>(path, names, config). snd names \<in> funs) incoming)"
  then have "map_of (rev (filter (\<lambda>(path, names, config). snd names \<in> funs) incoming)) path = None"
    by (simp add: map_of_eq_None_iff)
  then show "map_of (upsert_checks_config funs old (asset_id, incoming)) path =
        (if fst path \<noteq> asset_id then map_of old path else None)"
    by (simp add: upsert_checks_config_map map_add_def restrict_map_def)
next
  fix self self' :: "'a probe"
  assume "on_upsert_asset (asset_id, incoming) self = Inr self'"
  then show "checks_config self' =
        upsert_checks_config (checks_funs self) (checks_config self) (asset_id, incoming)"
    unfolding on_upsert_asset_def by (rule set_new_checks_config_installs)
qed

lemma example_upsert_result:
  "on_upsert_asset (1, example_incoming) example_state =
     Inr (example_state
            \<lparr>checks_config := [((2, 3), (''h2'', ''C''), 10), ((1, 1), (''h1'', ''A''), 10),
                               ((1, 4), (''h1'', ''D''), 10)],
             checks := [((1, 1), 0), ((2, 3), 2), ((1, 4), 3)],
             tasks := [TaskPending, TaskCancelling, TaskPending, TaskPending]\<rparr>)"
  by (simp add: on_upsert_asset_def example_incoming_def example_state_def
        upsert_checks_config_def dict_update_def set_new_checks_config_def
        task_cancel_def task_cancelled_def Let_def)

theorem upsert_asset_desired_map_witness:
  "(2, 3) \<notin> fst ` set (filter (\<lambda>(path, names, config). snd names \<in> checks_funs example_state)
                          example_incoming) \<and>
   map_of (upsert_checks_config (checks_funs example_state) (checks_config example_state)
             (1, example_incoming)) (2, 3) = Some ((''h2'', ''C''), 10) \<and>
   (1, 5) \<notin> fst ` set (filter (\<lambda>(path, names, config). snd names \<in> checks_funs example_state)
                          example_incoming) \<and>
   map_of (upsert_checks_config (checks_funs example_state) (checks_config example_state)
             (1, example_incoming)) (1, 5) = None \<and>
   (\<exists>self'. on_upsert_asset (1, example_incoming) example_state = Inr self' \<and>
      checks_config self' =
        upsert_checks_config (checks_funs example_state) (checks_config example_state)
          (1, example_incoming))"
proof -
  note w = upsert_asset_desired_map
             [where funs = "checks_funs example_state" and old = "checks_config example_state"
                and asset_id = 1 and incoming = example_incoming]
  have n23: "(2, 3) \<notin> fst ` set (filter (\<lambda>(path, names, config). snd names \<in> checks_funs example_state)
                          example_incoming)"
    and n15: "(1, 5) \<notin> fst ` set (filter (\<lambda>(path, names, config). snd names \<in> checks_funs example_state)
                          example_incoming)"
    by (simp_all add: example_incoming_def example_state_def)
  from w n23 have "map_of (upsert_checks_config (checks_funs example_state) (checks_config example_state)
             (1, example_incoming)) (2, 3) =
       (if fst ((2, 3) :: path) \<noteq> 1 then map_of (checks_config example_state) (2, 3) else None)"
    by blast
  then have a: "map_of (upsert_checks_config (checks_funs example_state) (checks_config example_state)
             (1, example_incoming)) (2, 3) = Some ((''h2'', ''C''), 10)"
    by (simp add: example_state_def)
  from w n15 have "map_of (upsert_checks_config (checks_funs example_state) (checks_config example_state)
             (1, example_incoming)) (1, 5) =
       (if fst ((1, 5) :: path) \<noteq> 1 then map_of (checks_config example_state) (1, 5) else None)"
    by blast
  then have b: "map_of (upsert_checks_config (checks_funs example_state) (checks_config example_state)
             (1, example_incoming)) (1, 5) = None"
    by simp
  obtain self' where r: "on_upsert_asset (1, example_incoming) example_state = Inr self'"
    using example_upsert_result by blast
  with w have c: "checks_config self' =
        upsert_checks_config (checks_funs example_state) (checks_config example_state)
          (1, example_incoming)"
    by blast
  show ?thesis using n23 n15 a b r c by blast
qed

lemma task_cancelled_task_cancel [simp]:
  "task_cancelled (task_cancel t' tsk) t = task_cancelled tsk t"
  by (auto simp: task_cancelled_def task_cancel_def nth_list_update)

lemma drop_checks_keeps_entry:
  "drop_checks new old items (chk, tsk) = Inr (chk', tsk') \<Longrightarrow>
   map_of new path = Some v \<Longrightarrow>
   map_of old path = Some v \<or> (\<forall>t. (path, t) \<in> set items \<longrightarrow> \<not> task_cancelled tsk t) \<Longrightarrow>
   map_of chk' path = map_of chk path"
proof (induction items arbitrary: chk tsk)
  case Nil
  then show ?case by simp
next
  case (Cons item items)
  obtain p t where item: "item = (p, t)" by (cases item)
  from Cons.prems(1) item consider
    (dropped) "map_of new p = None"
      "drop_checks new old items (AList.delete p chk, task_cancel t tsk) = Inr (chk', tsk')"
  | (respawn) nv ov where "map_of new p = Some nv" "map_of old p = Some ov"
      "nv \<noteq> ov" "task_cancelled tsk t"
      "drop_checks new old items (AList.delete p chk, tsk) = Inr (chk', tsk')"
  | (kept) "drop_checks new old items (chk, tsk) = Inr (chk', tsk')"
    by (auto split: option.splits if_splits)
  then show ?case
  proof cases
    case dropped
    then have ne: "p \<noteq> path" using Cons.prems(2) by auto
    have "map_of old path = Some v \<or>
          (\<forall>t'. (path, t') \<in> set items \<longrightarrow> \<not> task_cancelled (task_cancel t tsk) t')"
      using Cons.prems(3) by auto
    from Cons.IH [OF dropped(2) Cons.prems(2) this] ne show ?thesis
      by (simp add: delete_conv')
  next
    case respawn
    have ne: "p \<noteq> path"
    proof
      assume "p = path"
      with respawn Cons.prems(2,3) item show False by auto
    qed
    have "map_of old path = Some v \<or>
          (\<forall>t'. (path, t') \<in> set items \<longrightarrow> \<not> task_cancelled tsk t')"
      using Cons.prems(3) by auto
    from Cons.IH [OF respawn(5) Cons.prems(2) this] ne show ?thesis
      by (simp add: delete_conv')
  next
    case kept
    have "map_of old path = Some v \<or>
          (\<forall>t'. (path, t') \<in> set items \<longrightarrow> \<not> task_cancelled tsk t')"
      using Cons.prems(3) by auto
    from Cons.IH [OF kept Cons.prems(2) this] show ?thesis .
  qed
qed

lemma drop_checks_keeps_done:
  "drop_checks new old items (chk, tsk) = Inr (chk', tsk') \<Longrightarrow>
   t < length tsk \<Longrightarrow> tsk ! t = TaskDone \<Longrightarrow>
   length tsk' = length tsk \<and> tsk' ! t = TaskDone"
proof (induction items arbitrary: chk tsk)
  case Nil
  then show ?case by simp
next
  case (Cons item items)
  obtain p t' where item: "item = (p, t')" by (cases item)
  have c: "length (task_cancel t' tsk) = length tsk" "task_cancel t' tsk ! t = TaskDone"
    using Cons.prems(2,3) by (auto simp: task_cancel_def nth_list_update)
  from Cons.prems item show ?case
    using c Cons.IH [of chk tsk] Cons.IH [of "AList.delete p chk" tsk]
      Cons.IH [of "AList.delete p chk" "task_cancel t' tsk"]
    by (auto split: option.splits if_splits)
qed

lemma start_checks_keeps:
  "path \<notin> set paths \<Longrightarrow> map_of (fst (start_checks paths (chk, tsk))) path = map_of chk path"
  by (induction paths arbitrary: chk tsk) (auto simp: update_conv')

lemma start_checks_tasks:
  "snd (start_checks paths (chk, tsk)) = tsk @ replicate (length paths) TaskPending"
  by (induction paths arbitrary: chk tsk) (auto simp: replicate_app_Cons_same)

lemma set_new_checks_config_keeps_ended:
  assumes ok: "set_new_checks_config new self = Inr self'"
    and entry: "map_of (checks self) path = Some t"
    and ended: "t < length (tasks self)" "tasks self ! t = TaskDone"
    and desired: "map_of new path = Some v"
    and same: "map_of (checks_config self) path = Some v \<or>
               (\<forall>t'. (path, t') \<in> set (checks self) \<longrightarrow> \<not> task_cancelled (tasks self) t')"
  shows "map_of (checks self') path = Some t \<and> tasks self' ! t = TaskDone"
proof -
  from ok obtain chk tsk chk' tsk' where
    d: "drop_checks new (checks_config self) (checks self) (checks self, tasks self) = Inr (chk, tsk)"
    and s: "start_checks (filter (\<lambda>p. map_of chk p = None) (map fst new)) (chk, tsk) = (chk', tsk')"
    and r: "self' = self\<lparr>checks_config := new, checks := chk', tasks := tsk'\<rparr>"
    by (auto simp: set_new_checks_config_def Let_def split: sum.splits prod.splits)
  have k1: "map_of chk path = Some t"
    using drop_checks_keeps_entry [OF d desired same] entry by simp
  have k2: "length tsk = length (tasks self)" "tsk ! t = TaskDone"
    using drop_checks_keeps_done [OF d ended] by simp_all
  have "path \<notin> set (filter (\<lambda>p. map_of chk p = None) (map fst new))"
    using k1 by simp
  from start_checks_keeps [OF this, of chk tsk] have k3: "map_of chk' path = Some t"
    using s k1 by simp
  have k4: "tsk' ! t = TaskDone"
    using start_checks_tasks [of "filter (\<lambda>p. map_of chk p = None) (map fst new)" chk tsk]
      s k2 ended(1)
    by (simp add: nth_append)
  show ?thesis using k3 k4 r by simp
qed


text \<open>
  The handler of \<open>IgnoreCheckException\<close>: the \<open>try\<close> statement leaves the loop
  without sending, and the task is done.
\<close>

lemma ignore_check_breaks:
  "check_and_send max_size to_bytes now my_task path RaisesIgnoreCheck ts self =
     Some (Break (task_done my_task self))"
  by (simp add: check_and_send_def inner_try_def)

text \<open>
  The pass never gets to that \<open>try\<close> statement. For a path that has a
  configuration, whatever the check would do, the pass raises \<open>TypeError\<close>: at
  \<open>0.8 * interval\<close>, or else at the call of \<open>get_config\<close> in \<open>_asset_config\<close>.
  The loop is left, the task is done, the configuration file, the task map and the
  transport are as they were.
\<close>

lemma asset_config_raises:
  "\<exists>self'. asset_config FERNET yaml now file asset_id use self = (Inl TypeError, self', file) \<and>
           checks self' = checks self \<and> tasks self' = tasks self \<and>
           checks_config self' = checks_config self \<and> protocol self' = protocol self"
proof (cases "read_local_config FERNET yaml now file self")
  case (Pair r file')
  have file': "file' = file"
    using read_local_config_keeps_file [of FERNET yaml now "file" self] Pair by simp
  show ?thesis
  proof (cases r)
    case (Inl e)
    with Pair file' show ?thesis
      by (simp add: asset_config_def get_config_with_use_def)
  next
    case (Inr read)
    with Pair have "fst (read_local_config FERNET yaml now file self) = Inr read" by simp
    from read_local_config_touches_local_config_only [OF this] Pair Inr file' show ?thesis
      by (simp add: asset_config_def get_config_with_use_def)
  qed
qed

lemma run_check_loop_pass_raises:
  assumes "map_of (checks_config self) path = Some names_config"
  shows "\<exists>self'. run_check_loop_pass env file my_task path outcome ts self =
                    Some (Raise TypeError (task_done my_task self'), file) \<and>
                  checks self' = checks self \<and> tasks self' = tasks self \<and>
                  checks_config self' = checks_config self \<and> protocol self' = protocol self"
proof -
  obtain names config where nc: "names_config = (names, config)" by (cases names_config)
  show ?thesis
  proof (cases "times_float (env_config_get env config ''_interval'')")
    case (Inl e)
    then have "e = TypeError"
      by (cases "env_config_get env config ''_interval''") simp_all
    with Inl assms nc show ?thesis
      by (auto simp: run_check_loop_pass_def)
  next
    case (Inr u)
    from asset_config_raises
      [of "env_fernet env" "env_yaml env" "env_mtime env" "file" "fst path"
          "env_config_get env config ''_use''" self]
    obtain self' where
      "asset_config (env_fernet env) (env_yaml env) (env_mtime env) file (fst path)
         (env_config_get env config ''_use'') self = (Inl TypeError, self', file)"
      "checks self' = checks self" "tasks self' = tasks self"
      "checks_config self' = checks_config self" "protocol self' = protocol self"
      by blast
    with Inr assms nc show ?thesis
      by (auto simp: run_check_loop_pass_def)
  qed
qed

text \<open>
  What the reconciler does with an ended task when the configuration of its path has
  changed: \<open>Task.cancelled()\<close> is false for a task whose coroutine returned or raised,
  so the test of the \<open>elif\<close> branch fails, the entry is kept and no task is started.
\<close>

lemma ended_check_kept_when_config_changes:
  assumes "set_new_checks_config new (task_done my_task self) = Inr self'"
    and "map_of (checks self) path = Some my_task"
    and "distinct (map fst (checks self))"
    and "my_task < length (tasks self)"
    and "map_of new path = Some v"
  shows "map_of (checks self') path = Some my_task \<and> tasks self' ! my_task = TaskDone"
proof -
  have entry: "map_of (checks (task_done my_task self)) path = Some my_task"
    and ended: "my_task < length (tasks (task_done my_task self))"
               "tasks (task_done my_task self) ! my_task = TaskDone"
    using assms(2,4) by (simp_all add: task_done_def)
  have "\<forall>t'. (path, t') \<in> set (checks (task_done my_task self)) \<longrightarrow>
          \<not> task_cancelled (tasks (task_done my_task self)) t'"
  proof (intro allI impI)
    fix t'
    assume "(path, t') \<in> set (checks (task_done my_task self))"
    then have "map_of (checks self) path = Some t'"
      using assms(3) by (simp add: task_done_def)
    with assms(2) have "t' = my_task" by simp
    with ended show "\<not> task_cancelled (tasks (task_done my_task self)) t'"
      by (simp add: task_cancelled_def)
  qed
  from set_new_checks_config_keeps_ended [OF assms(1) entry ended assms(5) disjI2 [OF this]]
  show ?thesis .
qed

text \<open>
  C3. The claim is that a check whose loop has ended through \<open>IgnoreCheck\<close> is
  re-scheduled when a reconciliation delivers a changed configuration for its path. On
  a probe fresh from \<open>__init__\<close>, \<open>set_assets\<close> starts the check of path
  \<open>(1, 1)\<close> as task 0. Its first pass raises \<open>TypeError\<close> before the check is
  awaited, whatever the check would do, so no check ever gets to raise \<open>IgnoreCheck\<close>;
  the loop is over and the task is done. The \<open>break\<close> of the \<open>IgnoreCheck\<close>
  handler, were it reached, would leave the probe in the same state. Then \<open>set_assets\<close> delivers a changed configuration for
  the path. The reconciler installs it, keeps the path bound to the ended task 0 and
  starts no task: the check is not re-scheduled.
\<close>

theorem ended_check_not_rescheduled:
  "on_set_assets [((1, 1), (''h1'', ''A''), 10)] fresh_probe = Inr running_probe \<and>
   run_check_loop_pass example_env example_file 0 (1, 1) outcome 90 running_probe =
     Some (Raise TypeError (task_done 0 running_probe), example_file) \<and>
   check_and_send 500000 example_frame 100 0 (1, 1) RaisesIgnoreCheck 90 running_probe =
     Some (Break (task_done 0 running_probe)) \<and>
   on_set_assets [((1, 1), (''h1'', ''A''), 20)] (task_done 0 running_probe) =
     Inr (fresh_probe\<lparr>checks_config := [((1, 1), (''h1'', ''A''), 20)],
                      checks := [((1, 1), 0)], tasks := [TaskDone]\<rparr>)"
proof (intro conjI)
  show "on_set_assets [((1, 1), (''h1'', ''A''), 10)] fresh_probe = Inr running_probe"
    by (simp add: on_set_assets_def set_new_checks_config_def dict_update_def
          fresh_probe_def running_probe_def Let_def)
  show "run_check_loop_pass example_env example_file 0 (1, 1) outcome 90 running_probe =
          Some (Raise TypeError (task_done 0 running_probe), example_file)"
    by (simp add: run_check_loop_pass_def asset_config_def get_config_with_use_def
          read_local_config_def running_probe_def fresh_probe_def example_env_def
          example_file_def Let_def)
  show "check_and_send 500000 example_frame 100 0 (1, 1) RaisesIgnoreCheck 90 running_probe =
          Some (Break (task_done 0 running_probe))"
    by (simp add: check_and_send_def inner_try_def)
  show "on_set_assets [((1, 1), (''h1'', ''A''), 20)] (task_done 0 running_probe) =
     Inr (fresh_probe\<lparr>checks_config := [((1, 1), (''h1'', ''A''), 20)],
                      checks := [((1, 1), 0)], tasks := [TaskDone]\<rparr>)"
    by (simp add: on_set_assets_def set_new_checks_config_def dict_update_def task_done_def
          task_cancel_def task_cancelled_def fresh_probe_def running_probe_def Let_def)
qed

subsection \<open>Sending a result\<close>

text \<open>
  A call of \<open>send\<close> that returns has found a frame within the limit: by induction
  over the calls that return.
\<close>

lemma send_returns_fit:
  assumes "send max_size to_bytes now self path result error ts = Some y"
  shows "\<exists>x. int (length (to_bytes x)) \<le> max_size"
proof (rule send.raw_induct
    [where P = "\<lambda>max_size to_bytes now self path result error ts y.
                  \<exists>x. int (length (to_bytes x)) \<le> max_size", OF _ assms])
  fix send' :: "int \<Rightarrow> (path \<times> check_data \<Rightarrow> string) \<Rightarrow> int \<Rightarrow> 'a probe \<Rightarrow> path
                  \<Rightarrow> yaml option \<Rightarrow> error_dict option \<Rightarrow> int \<Rightarrow> 'a probe option"
  fix max_size to_bytes now self path result error ts y
  assume IH: "\<And>max_size to_bytes now self path result error ts y.
           send' max_size to_bytes now self path result error ts = Some y \<Longrightarrow>
           \<exists>x. int (length (to_bytes x)) \<le> max_size"
  assume step:
    "(let check_data = \<lparr>cd_result = result, cd_error = error, cd_duration = now - ts,
                         cd_timestamp = ts\<rparr>;
          data = to_bytes (path, check_data)
      in if int (length data) > max_size
         then send' max_size to_bytes now self path None
                (Some (ErrorDict
                   (''data package too large ('' @ str_nat (length data) @ '' bytes)'')
                   None)) ts
         else (case protocol self of
                 None \<Rightarrow> Some self
               | Some proto \<Rightarrow>
                   (case transport proto of
                      None \<Rightarrow> Some self
                    | Some written \<Rightarrow>
                        Some (self\<lparr>protocol :=
                                Some (proto\<lparr>transport := Some (written @ [data])\<rparr>)\<rparr>)))) =
     Some y"
  show "\<exists>x. int (length (to_bytes x)) \<le> max_size"
  proof (cases "int (length (to_bytes (path, \<lparr>cd_result = result, cd_error = error,
                   cd_duration = now - ts, cd_timestamp = ts\<rparr>))) > max_size")
    case True
    with step IH show ?thesis by (simp add: Let_def)
  next
    case False
    then show ?thesis using leI by blast
  qed
qed

lemma send_never_returns_when_no_frame_fits:
  assumes "\<forall>x. int (length (to_bytes x)) > max_size"
  shows "send max_size to_bytes now self path result error ts = None"
proof (rule ccontr)
  note all = assms
  assume "send max_size to_bytes now self path result error ts \<noteq> None"
  then obtain y where "send max_size to_bytes now self path result error ts = Some y"
    by blast
  from send_returns_fit [OF this] obtain x where "int (length (to_bytes x)) \<le> max_size"
    by blast
  with all show False
    using leD by blast
qed

text \<open>
  C9. The claim is that the oversize handler of \<open>send\<close> ends after at most one
  fallback frame for every value of \<open>MAX_PACKAGE_SIZE\<close>. The module accepts
  \<open>MAX_PACKAGE_SIZE=0\<close>, which makes the limit 0 bytes. No frame is empty (a package
  has a header), so every frame is over the limit, the fallback included: \<open>send\<close> calls
  itself without end and never writes a frame.
\<close>

theorem send_unbounded_at_zero_limit:
  assumes "\<forall>x. to_bytes x \<noteq> []"
  shows "MAX_PACKAGE_SIZE (IntText 0) = Inr 0 \<and>
         send 0 to_bytes now self path result error ts = None"
proof
  show "MAX_PACKAGE_SIZE (IntText 0) = Inr 0"
    by (simp add: MAX_PACKAGE_SIZE_def getenv_int_def out_of_bounds_def)
  show "send 0 to_bytes now self path result error ts = None"
    using assms by (intro send_never_returns_when_no_frame_fits) simp
qed

theorem send_unbounded_at_zero_limit_witness:
  "(\<forall>x. example_frame x \<noteq> []) \<and>
   MAX_PACKAGE_SIZE (IntText 0) = Inr 0 \<and>
   send 0 example_frame 100 example_state (1, 1) (Some (YDict [])) None 90 = None"
proof -
  have ne: "\<forall>x. example_frame x \<noteq> []"
    by (simp add: example_frame_def split: prod.splits)
  from send_unbounded_at_zero_limit [OF ne, of 100 example_state "(1, 1)" "Some (YDict [])" None 90]
  show ?thesis using ne by simp
qed

text \<open>
  Where the fallback frame is within the limit, as it is for every limit the message of
  the module's bounds test allows, \<open>send\<close> returns after at most one recursive call
  and writes one frame when there is a transport: the frame of the result, or the
  fallback with a null result and the \<open>data package too large\<close> error.
\<close>

lemma send_one_fallback_when_it_fits:
  assumes fits: "\<forall>n. int (length (to_bytes (path,
                   \<lparr>cd_result = None, cd_error = Some (too_large n),
                    cd_duration = now - ts, cd_timestamp = ts\<rparr>))) \<le> max_size"
  shows "send max_size to_bytes now self path result error ts =
           Some (write_frame
             (let data = to_bytes (path, \<lparr>cd_result = result, cd_error = error,
                                          cd_duration = now - ts, cd_timestamp = ts\<rparr>)
              in if int (length data) > max_size
                 then to_bytes (path, \<lparr>cd_result = None,
                                        cd_error = Some (too_large (length data)),
                                        cd_duration = now - ts, cd_timestamp = ts\<rparr>)
                 else data) self)"
proof -
  let ?data = "to_bytes (path, \<lparr>cd_result = result, cd_error = error,
                                 cd_duration = now - ts, cd_timestamp = ts\<rparr>)"
  have fits': "\<not> max_size < int (length (to_bytes (path,
                   \<lparr>cd_result = None, cd_error = Some (too_large n),
                    cd_duration = now - ts, cd_timestamp = ts\<rparr>)))" for n
    using fits by (simp add: not_less)
  have fallback: "send max_size to_bytes now self path None (Some (too_large n)) ts =
      Some (write_frame (to_bytes (path, \<lparr>cd_result = None, cd_error = Some (too_large n),
                                         cd_duration = now - ts, cd_timestamp = ts\<rparr>)) self)" for n
    by (subst send.simps) (simp add: Let_def write_frame_def fits' split: option.splits)
  show ?thesis
  proof (cases "int (length ?data) > max_size")
    case True
    have "send max_size to_bytes now self path result error ts =
          send max_size to_bytes now self path None (Some (too_large (length ?data))) ts"
      using True by (subst send.simps) (simp add: Let_def too_large_def)
    with True show ?thesis by (simp add: fallback Let_def)
  next
    case False
    then show ?thesis
      by (subst send.simps) (simp add: Let_def write_frame_def split: option.splits)
  qed
qed

end
